theory Spec2Isabelle
  imports Main "HOL-Library.Signed_Division" "HOL-Library.Sublist"
begin

section \<open>JavaScript values used by the gateway\<close>

text \<open>
  Indexing an array outside its bounds does not raise in JavaScript: it yields
  \<^verbatim>\<open>undefined\<close>.  The model returns \<open>None\<close> for \<^verbatim>\<open>undefined\<close>.
\<close>

definition js_array_get :: "'a list \<Rightarrow> int \<Rightarrow> 'a option" where
  "js_array_get xs i = (if 0 \<le> i \<and> i < int (length xs) then Some (xs ! nat i) else None)"

section \<open>KeyRotator\<close>

text \<open>
  \<^verbatim>\<open>class KeyRotator { private currentKeyIndex: number = -1; private readonly keys: string[]; ... }\<close>
  The remainder operator \<^verbatim>\<open>%\<close> of JavaScript truncates towards zero, which is \<open>smod\<close>
  on \<open>int\<close>.
\<close>

record KeyRotator =
  keys :: "string list"
  currentKeyIndex :: int

text \<open>The constructor throws \<^verbatim>\<open>Error('KeyRotator requires at least one key')\<close> on an empty pool.\<close>

definition KeyRotator_new :: "string list \<Rightarrow> string + KeyRotator" where
  "KeyRotator_new ks =
     (if length ks = 0 then Inl ''KeyRotator requires at least one key''
      else Inr \<lparr>keys = ks, currentKeyIndex = - 1\<rparr>)"

definition getNextKey :: "KeyRotator \<Rightarrow> string option \<times> KeyRotator" where
  "getNextKey r =
     (let r' = r\<lparr>currentKeyIndex := (currentKeyIndex r + 1) smod int (length (keys r))\<rparr>
      in (js_array_get (keys r') (currentKeyIndex r'), r'))"

definition getCurrentKey :: "KeyRotator \<Rightarrow> string option" where
  "getCurrentKey r = js_array_get (keys r) (currentKeyIndex r)"

definition getCurrentIndex :: "KeyRotator \<Rightarrow> int" where
  "getCurrentIndex r = currentKeyIndex r"

definition getKeyCount :: "KeyRotator \<Rightarrow> nat" where
  "getKeyCount r = length (keys r)"

text \<open>
  \<open>getNextKey_times n r\<close> performs \<open>n\<close> consecutive \<^verbatim>\<open>getNextKey()\<close> calls and collects
  what they return, in call order, together with the rotator they leave behind.
\<close>

fun getNextKey_times :: "nat \<Rightarrow> KeyRotator \<Rightarrow> string option list \<times> KeyRotator" where
  "getNextKey_times 0 r = ([], r)"
| "getNextKey_times (Suc n) r =
     (let (k, r1) = getNextKey r; (ks, r2) = getNextKey_times n r1 in (k # ks, r2))"

text \<open>
  The states a rotator can be in: the pool is never empty (the constructor rejects it and
  the field is read-only), and the cursor is \<open>-1\<close> before the first rotation and a valid
  index afterwards.
\<close>

definition rotator_ok :: "KeyRotator \<Rightarrow> bool" where
  "rotator_ok r \<longleftrightarrow>
     keys r \<noteq> [] \<and> - 1 \<le> currentKeyIndex r \<and> currentKeyIndex r < int (length (keys r))"

section \<open>BaseProvider\<close>

text \<open>
  The three abstract methods of \<^verbatim>\<open>BaseProvider\<close>.  An adapter call is asynchronous and talks
  to the upstream, so its result depends on the state \<open>'w\<close> of the outside world, which it
  may change; it either resolves with a response (\<open>Inr\<close>) or rejects with an error
  (\<open>Inl\<close>).  The API key handed to it is whatever the rotator returned, possibly
  \<^verbatim>\<open>undefined\<close> (\<open>None\<close>).  The methods of the two providers never touch the rotator, so
  a method neither takes nor returns it, and their classifiers always return a boolean.
  Console logging is not modelled.
\<close>

record ('e, 'q, 'r, 'u, 'w) abstract_methods =
  doSendRequest :: "string option \<Rightarrow> 'q \<Rightarrow> 'w \<Rightarrow> ('e + 'r) \<times> 'w"
  doGetUsage :: "string option \<Rightarrow> 'w \<Rightarrow> ('e + 'u) \<times> 'w"
  isQuotaExceededError :: "'e \<Rightarrow> bool"

text \<open>
  What one call of \<^verbatim>\<open>sendRequest\<close> or \<^verbatim>\<open>getUsage\<close> leaves behind: its outcome (\<open>Inr\<close> the
  value returned, \<open>Inl\<close> the value thrown), the rotator, the world, and the adapter calls it
  made, in order, each with the key it passed and the result it got.  The value thrown by
  \<^verbatim>\<open>sendRequest\<close> is an adapter error or the initial \<^verbatim>\<open>null\<close> of \<^verbatim>\<open>lastError\<close> (\<open>None\<close>).
\<close>

record ('t, 'r, 'c, 'w) call_result =
  outcome :: "'t + 'r"
  rotator :: KeyRotator
  world :: 'w
  calls :: "(string option \<times> 'c) list"

text \<open>
  The loop \<^verbatim>\<open>for (let attempt = 0; attempt < totalKeys; attempt++)\<close> of \<^verbatim>\<open>sendRequest\<close>,
  followed by \<^verbatim>\<open>throw lastError\<close>, as it runs when no other invocation on the same provider is
  under way while it awaits its adapter calls; \<open>sendRequest_shared_loop\<close> below is the loop
  without that condition.
\<close>

function sendRequest_loop ::
  "('e, 'q, 'r, 'u, 'w) abstract_methods \<Rightarrow> 'q \<Rightarrow> nat \<Rightarrow> nat \<Rightarrow> 'e option \<Rightarrow>
   KeyRotator \<Rightarrow> 'w \<Rightarrow> ('e option, 'r, 'e + 'r, 'w) call_result" where
  "sendRequest_loop A request totalKeys attempt lastError rot w =
     (if attempt < totalKeys then
        (case getNextKey rot of (apiKey, rot1) \<Rightarrow>
         case doSendRequest A apiKey request w of
           (Inr response, w1) \<Rightarrow>
             \<lparr>outcome = Inr response, rotator = rot1, world = w1,
              calls = [(apiKey, Inr response)]\<rparr>
         | (Inl error, w1) \<Rightarrow>
             if isQuotaExceededError A error
             then (let rest = sendRequest_loop A request totalKeys (attempt + 1) (Some error) rot1 w1
                   in rest\<lparr>calls := (apiKey, Inl error) # calls rest\<rparr>)
             else \<lparr>outcome = Inl (Some error), rotator = rot1, world = w1,
                   calls = [(apiKey, Inl error)]\<rparr>)
      else \<lparr>outcome = Inl lastError, rotator = rot, world = w, calls = []\<rparr>)"
  by pat_completeness auto
termination
  by (relation "measure (\<lambda>(A, request, totalKeys, attempt, lastError, rot, w). totalKeys - attempt)")
     auto

definition sendRequest ::
  "('e, 'q, 'r, 'u, 'w) abstract_methods \<Rightarrow> 'q \<Rightarrow> KeyRotator \<Rightarrow> 'w \<Rightarrow>
   ('e option, 'r, 'e + 'r, 'w) call_result" where
  "sendRequest A request rot w = sendRequest_loop A request (getKeyCount rot) 0 None rot w"

definition getUsage ::
  "('e, 'q, 'r, 'u, 'w) abstract_methods \<Rightarrow> KeyRotator \<Rightarrow> 'w \<Rightarrow> ('e, 'u, 'e + 'u, 'w) call_result" where
  "getUsage A rot w =
     (let apiKey = getCurrentKey rot in
      case doGetUsage A apiKey w of
        (res, w1) \<Rightarrow> \<lparr>outcome = res, rotator = rot, world = w1, calls = [(apiKey, res)]\<rparr>)"

declare sendRequest_loop.simps [simp del]

text \<open>
  A provider is created once and serves every request, so its rotator is shared.  At
  \<^verbatim>\<open>await this.doSendRequest(apiKey, request)\<close> the invocation is suspended, and other
  invocations of \<^verbatim>\<open>sendRequest\<close> on the same provider may run and call \<^verbatim>\<open>getNextKey()\<close> on
  that rotator; nothing else writes to it.  \<open>overlap w1\<close> is the number of rotations that
  other invocations performed during the adapter call that left the world in \<open>w1\<close>.  The
  loop goes on with the rotator as they left it.
\<close>

function sendRequest_shared_loop ::
  "('w \<Rightarrow> nat) \<Rightarrow> ('e, 'q, 'r, 'u, 'w) abstract_methods \<Rightarrow> 'q \<Rightarrow> nat \<Rightarrow> nat \<Rightarrow> 'e option \<Rightarrow>
   KeyRotator \<Rightarrow> 'w \<Rightarrow> ('e option, 'r, 'e + 'r, 'w) call_result" where
  "sendRequest_shared_loop overlap A request totalKeys attempt lastError rot w =
     (if attempt < totalKeys then
        (case getNextKey rot of (apiKey, rot1) \<Rightarrow>
         case doSendRequest A apiKey request w of
           (res, w1) \<Rightarrow>
             (let rot2 = snd (getNextKey_times (overlap w1) rot1) in
              case res of
                Inr response \<Rightarrow>
                  \<lparr>outcome = Inr response, rotator = rot2, world = w1,
                   calls = [(apiKey, Inr response)]\<rparr>
              | Inl error \<Rightarrow>
                  if isQuotaExceededError A error
                  then (let rest = sendRequest_shared_loop overlap A request totalKeys (attempt + 1)
                                     (Some error) rot2 w1
                        in rest\<lparr>calls := (apiKey, Inl error) # calls rest\<rparr>)
                  else \<lparr>outcome = Inl (Some error), rotator = rot2, world = w1,
                        calls = [(apiKey, Inl error)]\<rparr>))
      else \<lparr>outcome = Inl lastError, rotator = rot, world = w, calls = []\<rparr>)"
  by pat_completeness auto
termination
  by (relation "measure (\<lambda>(overlap, A, request, totalKeys, attempt, lastError, rot, w). totalKeys - attempt)")
     auto

declare sendRequest_shared_loop.simps [simp del]

definition sendRequest_shared ::
  "('w \<Rightarrow> nat) \<Rightarrow> ('e, 'q, 'r, 'u, 'w) abstract_methods \<Rightarrow> 'q \<Rightarrow> KeyRotator \<Rightarrow> 'w \<Rightarrow>
   ('e option, 'r, 'e + 'r, 'w) call_result" where
  "sendRequest_shared overlap A request rot w =
     sendRequest_shared_loop overlap A request (getKeyCount rot) 0 None rot w"

text \<open>
  Two ways to say what a run did, in terms of the adapter itself.  \<open>attempts A request ks w\<close>
  calls the adapter with the keys \<open>ks\<close> one after the other, each call in the world the call
  before it left, and returns the calls with their results and the last world.
  \<open>replay overlap A request cs rot w\<close> takes a list \<open>cs\<close> of calls and goes through it from the
  rotator \<open>rot\<close> and the world \<open>w\<close>: the key of each call must be the one \<^verbatim>\<open>getNextKey()\<close>
  returns then, its result must be what the adapter returns for that key in the world of
  that moment, and the rotator moves on as the other invocations leave it; it returns the
  rotator and the world at the end, or \<open>None\<close> when a call is not of that kind.
\<close>

fun attempts ::
  "('e, 'q, 'r, 'u, 'w) abstract_methods \<Rightarrow> 'q \<Rightarrow> string option list \<Rightarrow> 'w \<Rightarrow>
   (string option \<times> ('e + 'r)) list \<times> 'w" where
  "attempts A request [] w = ([], w)"
| "attempts A request (k # ks) w =
     (case doSendRequest A k request w of
        (res, w1) \<Rightarrow> (case attempts A request ks w1 of (cs, w2) \<Rightarrow> ((k, res) # cs, w2)))"

fun replay ::
  "('w \<Rightarrow> nat) \<Rightarrow> ('e, 'q, 'r, 'u, 'w) abstract_methods \<Rightarrow> 'q \<Rightarrow> (string option \<times> ('e + 'r)) list \<Rightarrow>
   KeyRotator \<Rightarrow> 'w \<Rightarrow> (KeyRotator \<times> 'w) option" where
  "replay overlap A request [] rot w = Some (rot, w)"
| "replay overlap A request (c # cs) rot w =
     (case getNextKey rot of (apiKey, rot1) \<Rightarrow>
      case doSendRequest A apiKey request w of
        (res, w1) \<Rightarrow>
          if c = (apiKey, res)
          then replay overlap A request cs (snd (getNextKey_times (overlap w1) rot1)) w1
          else None)"

section \<open>Strings\<close>

text \<open>
  A JavaScript string is modelled by the bytes of its UTF-8 encoding, as a \<open>string\<close>.
  The code only ever looks for ASCII characters and ASCII substrings in its strings, and an
  ASCII byte never occurs inside the encoding of another character, so searching the bytes
  finds what searching the UTF-16 code units finds.
\<close>

text \<open>\<^verbatim>\<open>s.includes(sub)\<close>: \<open>sub\<close> occurs in \<open>s\<close> as a contiguous substring.\<close>

definition includes_str :: "string \<Rightarrow> string \<Rightarrow> bool" where
  "includes_str s sub = sublist sub s"

text \<open>
  \<^verbatim>\<open>s.toLowerCase()\<close> on the ASCII letters.  Characters outside ASCII are left as they are:
  their lower-case forms are again outside ASCII (the Kelvin sign, which maps to \<open>k\<close>, and the
  dotted capital I, which maps to \<open>i\<close> followed by a combining dot, are the exceptions), and
  the result is only searched for ASCII substrings, none of which contains a \<open>k\<close> or ends
  in an \<open>i\<close>.
\<close>

definition lower_char :: "char \<Rightarrow> char" where
  "lower_char c =
     (let n = of_char c :: nat in if 65 \<le> n \<and> n \<le> 90 then char_of (n + 32) else c)"

definition toLowerCase :: "string \<Rightarrow> string" where
  "toLowerCase s = map lower_char s"

text \<open>
  The white space of \<^verbatim>\<open>String.prototype.trim\<close> and of the \<^verbatim>\<open>\s\<close> class of regular
  expressions: TAB, LF, VT, FF, CR, SPACE, and, in UTF-8, U+00A0, U+1680, U+2000 to U+200A,
  U+2028, U+2029, U+202F, U+205F, U+3000 and U+FEFF.  \<open>space_width s\<close> is the number of bytes
  of the white-space character \<open>s\<close> starts with, or \<open>0\<close>.
\<close>

definition ascii_space :: "char \<Rightarrow> bool" where
  "ascii_space c \<longleftrightarrow> c \<in> set [CHR 0x09, CHR 0x0A, CHR 0x0B, CHR 0x0C, CHR 0x0D, CHR 0x20]"

definition wide_spaces :: "string list" where
  "wide_spaces =
     [[CHR 0xC2, CHR 0xA0], [CHR 0xE1, CHR 0x9A, CHR 0x80],
      [CHR 0xE2, CHR 0x80, CHR 0x80], [CHR 0xE2, CHR 0x80, CHR 0x81], [CHR 0xE2, CHR 0x80, CHR 0x82],
      [CHR 0xE2, CHR 0x80, CHR 0x83], [CHR 0xE2, CHR 0x80, CHR 0x84], [CHR 0xE2, CHR 0x80, CHR 0x85],
      [CHR 0xE2, CHR 0x80, CHR 0x86], [CHR 0xE2, CHR 0x80, CHR 0x87], [CHR 0xE2, CHR 0x80, CHR 0x88],
      [CHR 0xE2, CHR 0x80, CHR 0x89], [CHR 0xE2, CHR 0x80, CHR 0x8A],
      [CHR 0xE2, CHR 0x80, CHR 0xA8], [CHR 0xE2, CHR 0x80, CHR 0xA9], [CHR 0xE2, CHR 0x80, CHR 0xAF],
      [CHR 0xE2, CHR 0x81, CHR 0x9F], [CHR 0xE3, CHR 0x80, CHR 0x80], [CHR 0xEF, CHR 0xBB, CHR 0xBF]]"

definition space_width :: "string \<Rightarrow> nat" where
  "space_width s =
     (case s of [] \<Rightarrow> 0
      | c # cs \<Rightarrow> if ascii_space c then 1
                 else (case find (\<lambda>sp. prefix sp s) wide_spaces of None \<Rightarrow> 0 | Some sp \<Rightarrow> length sp))"

function skip_spaces :: "string \<Rightarrow> string" where
  "skip_spaces s = (if space_width s = 0 then s else skip_spaces (drop (space_width s) s))"
  by pat_completeness auto
termination
proof (relation "measure length")
  show "wf (measure length)" by simp
next
  fix s :: string
  assume "space_width s \<noteq> 0"
  then have "s \<noteq> []" by (auto simp: space_width_def)
  with \<open>space_width s \<noteq> 0\<close> show "(drop (space_width s) s, s) \<in> measure length" by simp
qed

declare skip_spaces.simps [simp del]

text \<open>
  \<open>trim_end\<close> cuts the string where its remainder is white space only; \<open>trim\<close> is
  \<^verbatim>\<open>content.trim()\<close>.
\<close>

fun trim_end :: "string \<Rightarrow> string" where
  "trim_end [] = []"
| "trim_end (c # cs) = (if skip_spaces (c # cs) = [] then [] else c # trim_end cs)"

definition trim :: "string \<Rightarrow> string" where
  "trim s = trim_end (skip_spaces s)"

section \<open>JSON\<close>

text \<open>
  The values \<^verbatim>\<open>JSON.parse\<close> produces.  A number is kept as the literal it was written with:
  the double it denotes is not modelled.  An object is the list of its own properties in
  the order JavaScript enumerates them.
\<close>

datatype json =
    JNull
  | JBool bool
  | JNumber string
  | JString string
  | JArray "json list"
  | JObject "(string \<times> json) list"

subsection \<open>JSON.parse\<close>

text \<open>
  \<^verbatim>\<open>JSON.parse\<close> is a built-in; the model follows the JSON grammar (ECMA-404) in two passes.
  The first pass cuts the text into tokens.
\<close>

datatype token =
    TLBrace | TRBrace | TLBracket | TRBracket | TColon | TComma
  | TString string | TNumber string | TTrue | TFalse | TNull

definition is_digit :: "char \<Rightarrow> bool" where
  "is_digit c \<longleftrightarrow> (let n = of_char c :: nat in 48 \<le> n \<and> n \<le> 57)"

definition hex_value :: "char \<Rightarrow> int option" where
  "hex_value c =
     (let n = of_char c :: int in
      if 48 \<le> n \<and> n \<le> 57 then Some (n - 48)
      else if 65 \<le> n \<and> n \<le> 70 then Some (n - 55)
      else if 97 \<le> n \<and> n \<le> 102 then Some (n - 87)
      else None)"

definition hex4 :: "char \<Rightarrow> char \<Rightarrow> char \<Rightarrow> char \<Rightarrow> int option" where
  "hex4 a b c d =
     (case (hex_value a, hex_value b, hex_value c, hex_value d) of
        (Some h3, Some h2, Some h1, Some h0) \<Rightarrow> Some (((h3 * 16 + h2) * 16 + h1) * 16 + h0)
      | _ \<Rightarrow> None)"

definition simple_escape :: "char \<Rightarrow> char option" where
  "simple_escape e =
     (if e = CHR 0x22 then Some (CHR 0x22)
      else if e = CHR 0x5C then Some (CHR 0x5C)
      else if e = CHR ''/'' then Some (CHR ''/'')
      else if e = CHR ''b'' then Some (CHR 0x08)
      else if e = CHR ''f'' then Some (CHR 0x0C)
      else if e = CHR ''n'' then Some (CHR 0x0A)
      else if e = CHR ''r'' then Some (CHR 0x0D)
      else if e = CHR ''t'' then Some (CHR 0x09)
      else None)"

text \<open>
  A string literal is read as a list of pieces: a byte copied from the text, or a UTF-16 code
  unit written as \<^verbatim>\<open>\uXXXX\<close>.  \<open>encode_pieces\<close> turns the pieces into UTF-8, combining a
  surrogate pair into one code point.
\<close>

datatype piece = Byte char | Unit int

fun lex_string :: "string \<Rightarrow> (piece list \<times> string) option" where
  "lex_string [] = None"
| "lex_string (c # cs) =
     (if c = CHR 0x22 then Some ([], cs)
      else if c = CHR 0x5C then
        (case cs of
           [] \<Rightarrow> None
         | e # cs1 \<Rightarrow>
             if e = CHR ''u'' then
               (case cs1 of
                  h3 # h2 # h1 # h0 # cs2 \<Rightarrow>
                    (case hex4 h3 h2 h1 h0 of
                       None \<Rightarrow> None
                     | Some u \<Rightarrow> map_option (\<lambda>(ps, rest). (Unit u # ps, rest)) (lex_string cs2))
                | _ \<Rightarrow> None)
             else
               (case simple_escape e of
                  None \<Rightarrow> None
                | Some x \<Rightarrow> map_option (\<lambda>(ps, rest). (Byte x # ps, rest)) (lex_string cs1)))
      else if (of_char c :: nat) < 32 then None
      else map_option (\<lambda>(ps, rest). (Byte c # ps, rest)) (lex_string cs))"

definition utf8 :: "int \<Rightarrow> string" where
  "utf8 n =
     (if n < 0x80 then [char_of n]
      else if n < 0x800 then [char_of (0xC0 + n div 64), char_of (0x80 + n mod 64)]
      else if n < 0x10000 then
        [char_of (0xE0 + n div 4096), char_of (0x80 + n div 64 mod 64), char_of (0x80 + n mod 64)]
      else
        [char_of (0xF0 + n div 262144), char_of (0x80 + n div 4096 mod 64),
         char_of (0x80 + n div 64 mod 64), char_of (0x80 + n mod 64)])"

fun encode_pieces :: "piece list \<Rightarrow> string" where
  "encode_pieces [] = []"
| "encode_pieces (Byte c # ps) = c # encode_pieces ps"
| "encode_pieces (Unit hi # Unit lo # ps) =
     (if 0xD800 \<le> hi \<and> hi < 0xDC00 \<and> 0xDC00 \<le> lo \<and> lo < 0xE000
      then utf8 (0x10000 + (hi - 0xD800) * 1024 + (lo - 0xDC00)) @ encode_pieces ps
      else utf8 hi @ encode_pieces (Unit lo # ps))"
| "encode_pieces (Unit u # ps) = utf8 u @ encode_pieces ps"

text \<open>
  A number literal: an optional minus sign, an integer part without a leading zero, an
  optional fraction and an optional exponent.  The result is the literal and the rest of the
  text.
\<close>

definition lex_number :: "string \<Rightarrow> (string \<times> string) option" where
  "lex_number s =
     (let sign = (if prefix ''-'' s then ''-'' else []);
          s1 = drop (length sign) s;
          ip = takeWhile is_digit s1;
          s2 = dropWhile is_digit s1
      in if ip = [] \<or> (hd ip = CHR ''0'' \<and> length ip > 1) then None
         else
           (let dot = (case s2 of c # cs \<Rightarrow> c = CHR ''.'' | [] \<Rightarrow> False);
                fp = (if dot then takeWhile is_digit (tl s2) else []);
                s3 = (if dot then dropWhile is_digit (tl s2) else s2)
            in if dot \<and> fp = [] then None
               else
                 (let ex = (case s3 of c # cs \<Rightarrow> c = CHR ''e'' \<or> c = CHR ''E'' | [] \<Rightarrow> False);
                      s4 = (if ex then tl s3 else s3);
                      esign = (if ex then (case s4 of c # cs \<Rightarrow>
                                  if c = CHR ''+'' \<or> c = CHR ''-'' then [c] else [] | [] \<Rightarrow> []) else []);
                      s5 = drop (length esign) s4;
                      ep = (if ex then takeWhile is_digit s5 else []);
                      s6 = (if ex then dropWhile is_digit s5 else s3)
                  in if ex \<and> ep = [] then None
                     else Some (take (length s - length s6) s, s6))))"

text \<open>Both scanners consume at least one character, which is what makes \<open>lex\<close> terminate.\<close>

lemma lex_string_shorter [termination_simp]:
  "lex_string s = Some (ps, rest) \<Longrightarrow> length rest < length s"
proof (induction s arbitrary: ps rest rule: length_induct)
  case (1 s)
  then have IH: "\<And>t qs r. length t < length s \<Longrightarrow> lex_string t = Some (qs, r) \<Longrightarrow> length r < length t"
    by blast
  from "1.prems" show ?case
    by (cases s) (auto split: if_splits list.splits option.splits dest!: IH [rotated])
qed

lemma length_dropWhile_less: "takeWhile P xs \<noteq> [] \<Longrightarrow> length (dropWhile P xs) < length xs"
  by (cases xs) (auto simp: le_imp_less_Suc length_dropWhile_le split: if_splits)

lemma lex_number_shorter [termination_simp]:
  assumes "lex_number s = Some (n, rest)"
  shows "length rest < length s"
proof -
  define sign where "sign = (if prefix ''-'' s then ''-'' else [])"
  define s1 where "s1 = drop (length sign) s"
  define s2 where "s2 = dropWhile is_digit s1"
  define dot where "dot = (case s2 of c # cs \<Rightarrow> c = CHR ''.'' | [] \<Rightarrow> False)"
  define s3 where "s3 = (if dot then dropWhile is_digit (tl s2) else s2)"
  define ex where "ex = (case s3 of c # cs \<Rightarrow> c = CHR ''e'' \<or> c = CHR ''E'' | [] \<Rightarrow> False)"
  define s4 where "s4 = (if ex then tl s3 else s3)"
  define esign where "esign = (if ex then (case s4 of c # cs \<Rightarrow>
                                  if c = CHR ''+'' \<or> c = CHR ''-'' then [c] else [] | [] \<Rightarrow> []) else [])"
  define s5 where "s5 = drop (length esign) s4"
  define s6 where "s6 = (if ex then dropWhile is_digit s5 else s3)"
  from assms have ip: "takeWhile is_digit s1 \<noteq> []" and r: "rest = s6"
    unfolding lex_number_def
    by (auto simp: Let_def sign_def s1_def s2_def dot_def s3_def ex_def s4_def esign_def s5_def s6_def
             split: if_splits)
  have "length s2 < length s1" unfolding s2_def using ip by (rule length_dropWhile_less)
  moreover have "length s1 \<le> length s" by (simp add: s1_def)
  moreover have "length s3 \<le> length s2"
    unfolding s3_def using length_dropWhile_le [of is_digit "tl s2"] by auto
  moreover have "length s4 \<le> length s3" by (simp add: s4_def)
  moreover have "length s5 \<le> length s4" by (simp add: s5_def)
  moreover have "length s6 \<le> length s3"
    unfolding s6_def using length_dropWhile_le [of is_digit s5] \<open>length s5 \<le> length s4\<close> \<open>length s4 \<le> length s3\<close>
    by auto
  ultimately show ?thesis using r by simp
qed

definition json_space :: "char \<Rightarrow> bool" where
  "json_space c \<longleftrightarrow> c \<in> set [CHR 0x20, CHR 0x09, CHR 0x0A, CHR 0x0D]"

function lex :: "string \<Rightarrow> token list option" where
  "lex [] = Some []"
| "lex (c # cs) =
     (if json_space c then lex cs
      else if c = CHR ''{'' then map_option ((#) TLBrace) (lex cs)
      else if c = CHR ''}'' then map_option ((#) TRBrace) (lex cs)
      else if c = CHR ''['' then map_option ((#) TLBracket) (lex cs)
      else if c = CHR '']'' then map_option ((#) TRBracket) (lex cs)
      else if c = CHR '':'' then map_option ((#) TColon) (lex cs)
      else if c = CHR '','' then map_option ((#) TComma) (lex cs)
      else if c = CHR 0x22 then
        (case lex_string cs of
           None \<Rightarrow> None
         | Some (ps, rest) \<Rightarrow> map_option ((#) (TString (encode_pieces ps))) (lex rest))
      else if c = CHR ''-'' \<or> is_digit c then
        (case lex_number (c # cs) of
           None \<Rightarrow> None
         | Some (n, rest) \<Rightarrow> map_option ((#) (TNumber n)) (lex rest))
      else if prefix ''true'' (c # cs) then map_option ((#) TTrue) (lex (drop 4 (c # cs)))
      else if prefix ''false'' (c # cs) then map_option ((#) TFalse) (lex (drop 5 (c # cs)))
      else if prefix ''null'' (c # cs) then map_option ((#) TNull) (lex (drop 4 (c # cs)))
      else None)"
  by pat_completeness auto
termination
proof (relation "measure length", simp_all, goal_cases)
  case (1 c cs x2 x y)
  then have "lex_string cs = Some (x, y)" by simp
  from lex_string_shorter [OF this] show ?case by simp
next
  case (2 c cs x2 x y)
  then have "lex_number (c # cs) = Some (x, y)" by simp
  from lex_number_shorter [OF this] show ?case by simp
qed

text \<open>
  The second pass builds the value with a stack of the arrays and objects that are still
  open.  Defining a property that the object already has replaces its value in place; a new
  property goes after the existing ones, except that array indices (\<open>0\<close> to \<open>2^32 - 2\<close> in
  canonical decimal form) are enumerated first, in ascending order.
\<close>

definition int_of_digits :: "string \<Rightarrow> int" where
  "int_of_digits ds = foldl (\<lambda>n c. 10 * n + (of_char c - 48)) 0 ds"

definition array_index :: "string \<Rightarrow> int option" where
  "array_index k =
     (if k \<noteq> [] \<and> list_all is_digit k \<and> (k = ''0'' \<or> hd k \<noteq> CHR ''0'') \<and> length k \<le> 10
         \<and> int_of_digits k < 4294967295
      then Some (int_of_digits k) else None)"

fun insert_index :: "int \<Rightarrow> string \<times> json \<Rightarrow> (string \<times> json) list \<Rightarrow> (string \<times> json) list" where
  "insert_index i e [] = [e]"
| "insert_index i e (p # ps) =
     (case array_index (fst p) of
        None \<Rightarrow> e # p # ps
      | Some j \<Rightarrow> if i < j then e # p # ps else p # insert_index i e ps)"

definition define_property :: "string \<Rightarrow> json \<Rightarrow> (string \<times> json) list \<Rightarrow> (string \<times> json) list" where
  "define_property k v kvs =
     (if k \<in> set (map fst kvs) then map (\<lambda>p. if fst p = k then (k, v) else p) kvs
      else (case array_index k of None \<Rightarrow> kvs @ [(k, v)] | Some i \<Rightarrow> insert_index i (k, v) kvs))"

text \<open>
  A frame is an open array with its elements so far (latest first), an open object with its
  properties so far, or a property name waiting for its value.
\<close>

datatype frame = FArray "json list" | FObject "(string \<times> json) list" | FKey string

datatype pstate = ExpValue | ExpValueOrClose | ExpKey | ExpKeyOrClose | ExpColon | AfterValue | Done json

fun complete_value :: "json \<Rightarrow> frame list \<Rightarrow> (pstate \<times> frame list) option" where
  "complete_value v [] = Some (Done v, [])"
| "complete_value v (FArray els # st) = Some (AfterValue, FArray (v # els) # st)"
| "complete_value v (FKey k # FObject kvs # st) = Some (AfterValue, FObject (define_property k v kvs) # st)"
| "complete_value v _ = None"

fun scalar_of :: "token \<Rightarrow> json option" where
  "scalar_of (TString s) = Some (JString s)"
| "scalar_of (TNumber n) = Some (JNumber n)"
| "scalar_of TTrue = Some (JBool True)"
| "scalar_of TFalse = Some (JBool False)"
| "scalar_of TNull = Some JNull"
| "scalar_of _ = None"

definition start_value :: "token \<Rightarrow> frame list \<Rightarrow> (pstate \<times> frame list) option" where
  "start_value t st =
     (case scalar_of t of
        Some v \<Rightarrow> complete_value v st
      | None \<Rightarrow>
          if t = TLBracket then Some (ExpValueOrClose, FArray [] # st)
          else if t = TLBrace then Some (ExpKeyOrClose, FObject [] # st)
          else None)"

fun step :: "pstate \<Rightarrow> frame list \<Rightarrow> token \<Rightarrow> (pstate \<times> frame list) option" where
  "step ExpValue st t = start_value t st"
| "step ExpValueOrClose st t =
     (if t = TRBracket then (case st of FArray els # st1 \<Rightarrow> complete_value (JArray (rev els)) st1 | _ \<Rightarrow> None)
      else start_value t st)"
| "step ExpKey st t = (case t of TString k \<Rightarrow> Some (ExpColon, FKey k # st) | _ \<Rightarrow> None)"
| "step ExpKeyOrClose st t =
     (case t of
        TString k \<Rightarrow> Some (ExpColon, FKey k # st)
      | TRBrace \<Rightarrow> (case st of FObject kvs # st1 \<Rightarrow> complete_value (JObject kvs) st1 | _ \<Rightarrow> None)
      | _ \<Rightarrow> None)"
| "step ExpColon st t = (if t = TColon then Some (ExpValue, st) else None)"
| "step AfterValue st t =
     (case st of
        FArray els # st1 \<Rightarrow>
          if t = TComma then Some (ExpValue, st)
          else if t = TRBracket then complete_value (JArray (rev els)) st1
          else None
      | FObject kvs # st1 \<Rightarrow>
          if t = TComma then Some (ExpKey, st)
          else if t = TRBrace then complete_value (JObject kvs) st1
          else None
      | _ \<Rightarrow> None)"
| "step (Done v) st t = None"

fun run :: "pstate \<Rightarrow> frame list \<Rightarrow> token list \<Rightarrow> json option" where
  "run q st [] = (case q of Done v \<Rightarrow> Some v | _ \<Rightarrow> None)"
| "run q st (t # ts) = (case step q st t of None \<Rightarrow> None | Some (q1, st1) \<Rightarrow> run q1 st1 ts)"

text \<open>The exceptions that occur in the code; \<^verbatim>\<open>JSON.parse\<close> throws a \<^verbatim>\<open>SyntaxError\<close>.\<close>

datatype js_exception = SyntaxError | TypeError | Error string

definition JSON_parse :: "string \<Rightarrow> js_exception + json" where
  "JSON_parse s =
     (case lex s of
        None \<Rightarrow> Inl SyntaxError
      | Some ts \<Rightarrow> (case run ExpValue [] ts of None \<Rightarrow> Inl SyntaxError | Some v \<Rightarrow> Inr v))"

subsection \<open>Property access and truthiness\<close>

text \<open>
  \<open>js_prop v k\<close> is \<^verbatim>\<open>v.k\<close> for a parsed value \<open>v\<close> other than \<^verbatim>\<open>null\<close> (on which the
  access throws a \<^verbatim>\<open>TypeError\<close>) and for the property names the code reads (\<^verbatim>\<open>tool\<close>,
  \<^verbatim>\<open>arguments\<close>, \<^verbatim>\<open>final\<close>, \<^verbatim>\<open>properties\<close>, \<^verbatim>\<open>required\<close>), none of which a prototype
  defines; \<open>None\<close> is \<^verbatim>\<open>undefined\<close>.
\<close>

definition js_prop :: "json \<Rightarrow> string \<Rightarrow> json option" where
  "js_prop v k = (case v of JObject kvs \<Rightarrow> map_of kvs k | _ \<Rightarrow> None)"

text \<open>
  A number is falsy when it is \<open>0\<close>.  The double denoted by a literal with digits \<open>m\<close> and
  decimal exponent \<open>e\<close> is \<open>0\<close> exactly when \<open>m * 10^e\<close> is at most \<open>2^-1075\<close>, half of the
  smallest positive double.
\<close>

definition number_parts :: "string \<Rightarrow> string \<times> string \<times> string" where
  "number_parts n =
     (let s1 = (if prefix ''-'' n then tl n else n);
          ip = takeWhile is_digit s1;
          s2 = dropWhile is_digit s1;
          fp = (if prefix ''.'' s2 then takeWhile is_digit (tl s2) else []);
          s3 = (if prefix ''.'' s2 then dropWhile is_digit (tl s2) else s2)
      in (ip, fp, (if s3 = [] then [] else tl s3)))"

definition number_is_zero :: "string \<Rightarrow> bool" where
  "number_is_zero n =
     (case number_parts n of (ip, fp, ex) \<Rightarrow>
        (let m = int_of_digits (ip @ fp);
             e = (if prefix ''-'' ex then - int_of_digits (tl ex)
                  else if prefix ''+'' ex then int_of_digits (tl ex)
                  else int_of_digits ex) - int (length fp)
         in m = 0 \<or> (e < 0 \<and> m * 2 ^ 1075 \<le> 10 ^ nat (- e))))"

fun js_truthy :: "json option \<Rightarrow> bool" where
  "js_truthy None = False"
| "js_truthy (Some JNull) = False"
| "js_truthy (Some (JBool b)) = b"
| "js_truthy (Some (JNumber n)) = (\<not> number_is_zero n)"
| "js_truthy (Some (JString s)) = (s \<noteq> [])"
| "js_truthy (Some (JArray xs)) = True"
| "js_truthy (Some (JObject kvs)) = True"

subsection \<open>JSON.stringify\<close>

text \<open>
  \<^verbatim>\<open>JSON.stringify(v)\<close> without indentation.  How a number prints depends on the double it
  is, so the printing of numbers is a parameter \<open>fmt\<close>, from the literal to the text.  In a
  string the quote, the backslash, the control characters and lone surrogates (bytes
  \<open>ED A0..BF xx\<close>) are escaped.
\<close>

definition hex_digit :: "int \<Rightarrow> char" where
  "hex_digit d = (if d < 10 then char_of (48 + d) else char_of (87 + d))"

definition unicode_escape :: "int \<Rightarrow> string" where
  "unicode_escape u =
     [CHR 0x5C, CHR ''u'', hex_digit (u div 4096), hex_digit (u div 256 mod 16),
      hex_digit (u div 16 mod 16), hex_digit (u mod 16)]"

fun quote_chars :: "string \<Rightarrow> string" where
  "quote_chars [] = []"
| "quote_chars (c # cs) =
     (if c = CHR 0x22 then [CHR 0x5C, CHR 0x22] @ quote_chars cs
      else if c = CHR 0x5C then [CHR 0x5C, CHR 0x5C] @ quote_chars cs
      else if c = CHR 0x08 then [CHR 0x5C, CHR ''b''] @ quote_chars cs
      else if c = CHR 0x0C then [CHR 0x5C, CHR ''f''] @ quote_chars cs
      else if c = CHR 0x0A then [CHR 0x5C, CHR ''n''] @ quote_chars cs
      else if c = CHR 0x0D then [CHR 0x5C, CHR ''r''] @ quote_chars cs
      else if c = CHR 0x09 then [CHR 0x5C, CHR ''t''] @ quote_chars cs
      else if (of_char c :: int) < 32 then unicode_escape (of_char c) @ quote_chars cs
      else if c = CHR 0xED then
        (case cs of
           b # d # cs1 \<Rightarrow>
             if 0xA0 \<le> (of_char b :: int)
             then unicode_escape (0xD000 + (of_char b - 0x80) * 64 + (of_char d - 0x80)) @ quote_chars cs1
             else c # quote_chars cs
         | _ \<Rightarrow> c # quote_chars cs)
      else c # quote_chars cs)"

definition quote :: "string \<Rightarrow> string" where
  "quote s = [CHR 0x22] @ quote_chars s @ [CHR 0x22]"

fun JSON_stringify :: "(string \<Rightarrow> string) \<Rightarrow> json \<Rightarrow> string"
  and stringify_elements :: "(string \<Rightarrow> string) \<Rightarrow> json list \<Rightarrow> string"
  and stringify_members :: "(string \<Rightarrow> string) \<Rightarrow> (string \<times> json) list \<Rightarrow> string" where
  "JSON_stringify fmt JNull = ''null''"
| "JSON_stringify fmt (JBool b) = (if b then ''true'' else ''false'')"
| "JSON_stringify fmt (JNumber n) = fmt n"
| "JSON_stringify fmt (JString s) = quote s"
| "JSON_stringify fmt (JArray xs) = ''['' @ stringify_elements fmt xs @ '']''"
| "JSON_stringify fmt (JObject kvs) = ''{'' @ stringify_members fmt kvs @ ''}''"
| "stringify_elements fmt [] = []"
| "stringify_elements fmt [x] = JSON_stringify fmt x"
| "stringify_elements fmt (x # y # xs) = JSON_stringify fmt x @ '','' @ stringify_elements fmt (y # xs)"
| "stringify_members fmt [] = []"
| "stringify_members fmt [(k, v)] = quote k @ '':'' @ JSON_stringify fmt v"
| "stringify_members fmt ((k, v) # p # kvs) =
     quote k @ '':'' @ JSON_stringify fmt v @ '','' @ stringify_members fmt (p # kvs)"

section \<open>Regular expressions of parseToolCallResponse\<close>

text \<open>
  \<open>match_fence s\<close> is group 1 of the leftmost match of
  \<^verbatim>\<open>/```(?:json)?\s*(\{[\s\S]*?\})\s*```/\<close> in \<open>s\<close>.  At a start position the match is determined:
  the optional \<^verbatim>\<open>json\<close> and the white space must be consumed whole for an opening brace to
  follow, and the lazy body ends at the first closing brace that is followed by white space
  and the closing fence.
\<close>

fun fence_body :: "string \<Rightarrow> string option" where
  "fence_body [] = None"
| "fence_body (c # cs) =
     (if c = CHR ''}'' \<and> prefix ''```'' (skip_spaces cs) then Some [c]
      else map_option ((#) c) (fence_body cs))"

definition fence_at :: "string \<Rightarrow> string option" where
  "fence_at s =
     (if prefix ''```'' s then
        (let s1 = drop 3 s;
             s2 = (if prefix ''json'' s1 then drop 4 s1 else s1);
             s3 = skip_spaces s2
         in case s3 of
              c # cs \<Rightarrow> if c = CHR ''{'' then map_option ((#) c) (fence_body cs) else None
            | [] \<Rightarrow> None)
      else None)"

fun match_fence :: "string \<Rightarrow> string option" where
  "match_fence [] = None"
| "match_fence (c # cs) =
     (case fence_at (c # cs) of Some g \<Rightarrow> Some g | None \<Rightarrow> match_fence cs)"

text \<open>
  \<open>match_object s\<close> is the match of \<^verbatim>\<open>/\{[\s\S]*\}/\<close>: from the first opening brace to the last
  closing brace after it.
\<close>

definition match_object :: "string \<Rightarrow> string option" where
  "match_object s =
     (let s1 = dropWhile (\<lambda>c. c \<noteq> CHR ''{'') s in
      if s1 \<noteq> [] \<and> CHR ''}'' \<in> set (tl s1)
      then Some (rev (dropWhile (\<lambda>c. c \<noteq> CHR ''}'') (rev s1)))
      else None)"

section \<open>Requests, responses and errors\<close>

text \<open>
  The request of \<^verbatim>\<open>server.ts\<close> (\<^verbatim>\<open>messages: Array<{ role: string; content: string }>\<close> and
  further fields) with the fields the providers read.  An absent field is \<open>None\<close>.  The
  \<^verbatim>\<open>arguments\<close> of a tool call are a string or a JSON value.
\<close>

record request_tool_call =
  tc_name :: string
  tc_arguments :: "string + json"

record chat_message =
  role :: string
  content :: string
  name :: "string option"
  tool_calls :: "request_tool_call list option"

record tool =
  tool_name :: string
  tool_description :: "string option"
  tool_parameters :: "json option"

record request =
  model :: string
  messages :: "chat_message list"
  temperature :: "json option"
  max_tokens :: "json option"
  tools :: "tool list option"
  tool_choice :: "json option"

text \<open>The OpenAI-compatible response the providers return.\<close>

record tool_call_function =
  fn_name :: json
  fn_arguments :: string

record response_tool_call =
  call_id :: string
  call_type :: string
  call_function :: tool_call_function

record response_message =
  msg_role :: string
  msg_content :: "json option"
  msg_tool_calls :: "response_tool_call list option"

record choice =
  index :: nat
  message :: response_message
  finish_reason :: string

record usage =
  prompt_tokens :: nat
  completion_tokens :: nat
  total_tokens :: nat

record response =
  resp_id :: string
  resp_model :: string
  choices :: "choice list"
  resp_usage :: usage

text \<open>
  What an upstream client rejects with (\<open>upstream_error\<close>: \<^verbatim>\<open>message\<close>, \<^verbatim>\<open>status\<close>,
  \<^verbatim>\<open>error\<close>), and the error a provider throws (\<open>js_error\<close>: \<^verbatim>\<open>message\<close>, \<^verbatim>\<open>code\<close>,
  \<^verbatim>\<open>provider_error\<close>).
\<close>

record upstream_error =
  ue_message :: "string option"
  status :: "int option"
  error :: "string option"

record js_error =
  err_message :: "string option"
  err_code :: "string option"
  provider_error :: "upstream_error option"

text \<open>
  The arguments of \<^verbatim>\<open>ollama.chat\<close> and of \<^verbatim>\<open>chat.completions.create\<close>, with the host and
  the credential the client was built with.
\<close>

record chat_call =
  chat_host :: string
  chat_authorization :: string
  chat_model :: string
  chat_messages :: "chat_message list"
  chat_stream :: bool
  chat_temperature :: "json option"
  chat_num_predict :: "json option"

record create_call =
  create_baseURL :: string
  create_apiKey :: "string option"
  create_model :: string
  create_messages :: "chat_message list"
  create_stream :: bool
  create_temperature :: "json option"
  create_max_tokens :: "json option"
  create_tools :: "tool list option"
  create_tool_choice :: json

text \<open>
  What the providers use from outside: the printing of numbers, the clock
  (\<^verbatim>\<open>Date.now()\<close>), and the two upstream calls.  The clock and the upstreams read and change
  the state \<open>'w\<close> of the world.
\<close>

record 'w runtime =
  number_to_string :: "string \<Rightarrow> string"
  date_now :: "'w \<Rightarrow> int \<times> 'w"
  ollama_chat :: "chat_call \<Rightarrow> 'w \<Rightarrow> (upstream_error + string) \<times> 'w"
  openai_create :: "create_call \<Rightarrow> 'w \<Rightarrow> (upstream_error + response) \<times> 'w"

text \<open>Integers in template literals, \<^verbatim>\<open>Array.prototype.join\<close>, and \<^verbatim>\<open>${x}\<close> of a string or \<^verbatim>\<open>undefined\<close>.\<close>

function decimal_digits :: "int \<Rightarrow> string" where
  "decimal_digits n =
     (if n < 10 then [char_of (48 + n)] else decimal_digits (n div 10) @ [char_of (48 + n mod 10)])"
  by pat_completeness auto
termination
  by (relation "measure nat") auto

declare decimal_digits.simps [simp del]

definition decimal :: "int \<Rightarrow> string" where
  "decimal n = (if n < 0 then ''-'' @ decimal_digits (- n) else decimal_digits n)"

fun join :: "string \<Rightarrow> string list \<Rightarrow> string" where
  "join sep [] = []"
| "join sep [x] = x"
| "join sep (x # y # xs) = x @ sep @ join sep (y # xs)"

definition template_text :: "string option \<Rightarrow> string" where
  "template_text v = (case v of None \<Rightarrow> ''undefined'' | Some s \<Rightarrow> s)"

text \<open>\<^verbatim>\<open>v || d\<close>.\<close>

definition js_or :: "json option \<Rightarrow> json \<Rightarrow> json" where
  "js_or v d = (if js_truthy v then the v else d)"

section \<open>OllamaCloudProvider\<close>

text \<open>\<^verbatim>\<open>preprocessMessages\<close>\<close>

definition render_tool_call :: "'w runtime \<Rightarrow> request_tool_call \<Rightarrow> string" where
  \<open>render_tool_call rt tc =
     (let args = (case tc_arguments tc of Inl s \<Rightarrow> s | Inr v \<Rightarrow> JSON_stringify (number_to_string rt) v)
      in ''{"tool":"'' @ tc_name tc @ ''","arguments":'' @ args @ ''}'')\<close>

definition preprocessMessages :: "'w runtime \<Rightarrow> chat_message list \<Rightarrow> chat_message list" where
  "preprocessMessages rt msgs =
     map (\<lambda>msg.
       case tool_calls msg of
         Some tcs \<Rightarrow>
           \<lparr>role = role msg, content = join [CHR 0x0A] (map (render_tool_call rt) tcs),
            name = None, tool_calls = None\<rparr>
       | None \<Rightarrow>
           if role msg = ''tool'' then
             \<lparr>role = ''user'',
              content = ''Tool result from ''
                @ (case name msg of None \<Rightarrow> ''tool'' | Some n \<Rightarrow> if n = [] then ''tool'' else n)
                @ '':'' @ [CHR 0x0A] @ content msg,
              name = None, tool_calls = None\<rparr>
           else msg) msgs"

text \<open>\<^verbatim>\<open>buildToolInstruction\<close>; the two marks of the examples are U+2705 and U+274C.\<close>

definition describe_tool :: "'w runtime \<Rightarrow> tool \<Rightarrow> string" where
  "describe_tool rt t =
     (let params = js_or (case tool_parameters t of None \<Rightarrow> None | Some p \<Rightarrow> js_prop p ''properties'')
                     (JObject []);
          required = js_or (case tool_parameters t of None \<Rightarrow> None | Some p \<Rightarrow> js_prop p ''required'')
                       (JArray [])
      in ''- '' @ tool_name t @ '': '' @ template_text (tool_description t) @ [CHR 0x0A]
         @ ''  Parameters: ''
         @ JSON_stringify (number_to_string rt) (JObject [(''properties'', params), (''required'', required)]))"

definition buildToolInstruction :: "'w runtime \<Rightarrow> tool list \<Rightarrow> string" where
  \<open>buildToolInstruction rt ts =
     join [CHR 0x0A]
      [''You have access to the following tools:'',
       '''',
       join [CHR 0x0A] (map (describe_tool rt) ts),
       '''',
       ''IMPORTANT: When you need to use a tool, respond with ONLY a JSON object in this exact format:'',
       ''{"tool":"<tool_name>","arguments":{<argument_name>:<value>,...}}'',
       ''Do not include any other text or explanation outside of the JSON object about what you were thinking or similar.'',
       '''',
       ''CRITICAL JSON FORMATTING RULES:'',
       ''- All argument values must be valid JSON types (string, number, boolean, object, array, null)'',
       ''- For string values, use double quotes: "value"'',
       ''- For object values, use proper JSON syntax: {"key": "value"}'',
       ''- For array values, use proper JSON syntax: ["item1", "item2"]'',
       ''- Do NOT nest JSON strings inside other JSON strings'',
       ''- Do NOT escape quotes inside object values'',
       ''- All JSON must be valid and parseable by JSON.parse()'',
       '''',
       ''EXAMPLES:'',
       [CHR 0xE2, CHR 0x9C, CHR 0x85]
         @ '' CORRECT: {"tool":"my_tool","arguments":{"param1":"string_value","param2":{"nested":"object"},"param3":["array","values"]}}'',
       [CHR 0xE2, CHR 0x9D, CHR 0x8C]
         @ '' WRONG: {"tool":"my_tool","arguments":{"param1":"{"nested":"string"}"}}'',
       '''',
       ''When you have the final answer and don'' @ [CHR 0x27]
         @ ''t need any tools, respond with ONLY a JSON object in this exact format:'',
       ''{"final":"<your response>"}'',
       '''',
       ''Do not include any other text or explanation outside of the JSON object.'']\<close>

text \<open>\<^verbatim>\<open>injectToolInstruction\<close>\<close>

definition injectToolInstruction :: "chat_message list \<Rightarrow> string \<Rightarrow> chat_message list" where
  "injectToolInstruction msgs instruction =
     (let hasSystemMessage = list_ex (\<lambda>msg. role msg = ''system'') msgs in
      if hasSystemMessage then
        map (\<lambda>msg.
          if role msg = ''system''
          then msg\<lparr>content := content msg @ [CHR 0x0A, CHR 0x0A] @ instruction\<rparr>
          else msg) msgs
      else \<lparr>role = ''system'', content = instruction, name = None, tool_calls = None\<rparr> # msgs)"

text \<open>
  \<^verbatim>\<open>parseToolCallResponse\<close>.  \<open>extract_json\<close> is the inner \<^verbatim>\<open>try\<close>/\<^verbatim>\<open>catch\<close>: a failure of the
  whole text sends it to the fenced block, and only when there is no fenced block to the
  brace span; a failure to parse either of these is thrown on.  \<open>interpret_parsed\<close> is the
  rest of the outer \<^verbatim>\<open>try\<close> block, and \<open>parseToolCallResponse\<close> catches whatever the two
  throw and returns \<^verbatim>\<open>null\<close> (\<open>None\<close>).
\<close>

definition extract_json :: "string \<Rightarrow> js_exception + json" where
  "extract_json trimmed =
     (case JSON_parse trimmed of
        Inr parsed \<Rightarrow> Inr parsed
      | Inl _ \<Rightarrow>
          (case match_fence trimmed of
             Some jsonMatch \<Rightarrow> JSON_parse jsonMatch
           | None \<Rightarrow>
               (case match_object trimmed of
                  Some objectMatch \<Rightarrow> JSON_parse objectMatch
                | None \<Rightarrow> Inl (Error ''Cannot extract JSON from response''))))"

definition zero_usage :: usage where
  "zero_usage = \<lparr>prompt_tokens = 0, completion_tokens = 0, total_tokens = 0\<rparr>"

definition tool_calls_response :: "string \<Rightarrow> string \<Rightarrow> json \<Rightarrow> string \<Rightarrow> response" where
  "tool_calls_response rid cid tool_v args =
     \<lparr>resp_id = rid, resp_model = ''ollama-cloud'',
      choices = [\<lparr>index = 0,
                  message = \<lparr>msg_role = ''assistant'', msg_content = None,
                             msg_tool_calls = Some [\<lparr>call_id = cid, call_type = ''function'',
                               call_function = \<lparr>fn_name = tool_v, fn_arguments = args\<rparr>\<rparr>]\<rparr>,
                  finish_reason = ''tool_calls''\<rparr>],
      resp_usage = zero_usage\<rparr>"

definition text_response :: "string \<Rightarrow> string \<Rightarrow> json \<Rightarrow> response" where
  "text_response rid mdl text =
     \<lparr>resp_id = rid, resp_model = mdl,
      choices = [\<lparr>index = 0,
                  message = \<lparr>msg_role = ''assistant'', msg_content = Some text, msg_tool_calls = None\<rparr>,
                  finish_reason = ''stop''\<rparr>],
      resp_usage = zero_usage\<rparr>"

definition interpret_parsed :: "'w runtime \<Rightarrow> json \<Rightarrow> 'w \<Rightarrow> (js_exception + response) \<times> 'w" where
  "interpret_parsed rt parsed w =
     (if parsed = JNull then (Inl TypeError, w)
      else if js_truthy (js_prop parsed ''tool'') \<and> js_truthy (js_prop parsed ''arguments'') then
        (case date_now rt w of (t1, w1) \<Rightarrow>
         case date_now rt w1 of (t2, w2) \<Rightarrow>
           (Inr (tool_calls_response (''chatcmpl-'' @ decimal t1) (''call_'' @ decimal t2)
                   (the (js_prop parsed ''tool''))
                   (JSON_stringify (number_to_string rt) (the (js_prop parsed ''arguments'')))), w2))
      else if js_truthy (js_prop parsed ''final'') then
        (case date_now rt w of (t1, w1) \<Rightarrow>
           (Inr (text_response (''chatcmpl-'' @ decimal t1) ''ollama-cloud'' (the (js_prop parsed ''final''))), w1))
      else (Inl (Error ''Cannot handle response''), w))"

definition parseToolCallResponse :: "'w runtime \<Rightarrow> string \<Rightarrow> 'w \<Rightarrow> response option \<times> 'w" where
  "parseToolCallResponse rt reply w =
     (case extract_json (trim reply) of
        Inl e \<Rightarrow> (None, w)
      | Inr parsed \<Rightarrow>
          (case interpret_parsed rt parsed w of
             (Inl e, w1) \<Rightarrow> (None, w1)
           | (Inr r, w1) \<Rightarrow> (Some r, w1)))"

text \<open>\<^verbatim>\<open>doSendRequest\<close>, \<^verbatim>\<open>doGetUsage\<close> and \<^verbatim>\<open>isQuotaExceededError\<close> of \<^verbatim>\<open>OllamaCloudProvider\<close>.\<close>

definition OllamaCloud_doSendRequest ::
  "'w runtime \<Rightarrow> string option \<Rightarrow> string option \<Rightarrow> request \<Rightarrow> 'w \<Rightarrow>
   (js_error + response) \<times> 'w" where
  "OllamaCloud_doSendRequest rt host apiKey request w =
     (let hasTools = (case tools request of None \<Rightarrow> False | Some ts \<Rightarrow> ts \<noteq> []);
          preprocessed = preprocessMessages rt (messages request);
          msgs = (if hasTools
                  then injectToolInstruction preprocessed (buildToolInstruction rt (the (tools request)))
                  else preprocessed)
      in case ollama_chat rt
                \<lparr>chat_host = (case host of None \<Rightarrow> ''https://ollama.com''
                              | Some h \<Rightarrow> if h = [] then ''https://ollama.com'' else h),
                 chat_authorization = ''Bearer '' @ template_text apiKey,
                 chat_model = model request, chat_messages = msgs, chat_stream = False,
                 chat_temperature = temperature request, chat_num_predict = max_tokens request\<rparr> w of
           (Inl e, w1) \<Rightarrow>
             (Inl \<lparr>err_message = Some (''Failed to connect to OllamaCloud: '' @ template_text (ue_message e)),
                   err_code = None, provider_error = Some e\<rparr>, w1)
         | (Inr reply, w1) \<Rightarrow>
             (case (if hasTools then parseToolCallResponse rt reply w1 else (None, w1)) of
                (Some toolCallResponse, w2) \<Rightarrow> (Inr toolCallResponse, w2)
              | (None, w2) \<Rightarrow>
                  (case date_now rt w2 of (t, w3) \<Rightarrow>
                     (Inr (text_response (''chatcmpl-'' @ decimal t) (model request) (JString reply)), w3))))"

definition OllamaCloud_doGetUsage :: "string option \<Rightarrow> 'w \<Rightarrow> (js_error + json option) \<times> 'w" where
  "OllamaCloud_doGetUsage apiKey w = (Inr None, w)"

definition OllamaCloud_isQuotaExceededError :: "js_error \<Rightarrow> bool" where
  "OllamaCloud_isQuotaExceededError e =
     (let errorMessage = (case err_message e of None \<Rightarrow> [] | Some m \<Rightarrow> toLowerCase m);
          providerError = provider_error e;
          status_is = (\<lambda>n. case providerError of None \<Rightarrow> False | Some p \<Rightarrow> status p = Some n);
          payload_includes = (\<lambda>sub. case providerError of None \<Rightarrow> False
                                | Some p \<Rightarrow> (case error p of None \<Rightarrow> False | Some t \<Rightarrow> includes_str t sub))
      in if includes_str errorMessage ''quota'' \<or> includes_str errorMessage ''rate limit''
            \<or> includes_str errorMessage ''too many requests'' then True
         else if status_is 429 then True
         else if status_is 502 \<or> status_is 503 \<or> status_is 504 then True
         else if includes_str errorMessage ''upstream error'' \<or> includes_str errorMessage ''bad gateway''
            \<or> includes_str errorMessage ''service unavailable'' \<or> includes_str errorMessage ''gateway timeout''
         then True
         else if payload_includes ''quota'' \<or> payload_includes ''rate limit'' then True
         else False)"

definition OllamaCloudProvider ::
  "'w runtime \<Rightarrow> string option \<Rightarrow> (js_error, request, response, json option, 'w) abstract_methods" where
  "OllamaCloudProvider rt host =
     \<lparr>doSendRequest = OllamaCloud_doSendRequest rt host,
      doGetUsage = OllamaCloud_doGetUsage,
      isQuotaExceededError = OllamaCloud_isQuotaExceededError\<rparr>"

section \<open>OpenAIProvider\<close>

definition OpenAI_doSendRequest ::
  "'w runtime \<Rightarrow> string option \<Rightarrow> string option \<Rightarrow> request \<Rightarrow> 'w \<Rightarrow>
   (js_error + response) \<times> 'w" where
  "OpenAI_doSendRequest rt host apiKey request w =
     (case openai_create rt
             \<lparr>create_baseURL = (case host of None \<Rightarrow> ''https://api.openai.com''
                                | Some h \<Rightarrow> if h = [] then ''https://api.openai.com'' else h),
              create_apiKey = apiKey, create_model = model request,
              create_messages = messages request, create_stream = False,
              create_temperature = temperature request, create_max_tokens = max_tokens request,
              create_tools = tools request,
              create_tool_choice = js_or (tool_choice request) (JString ''auto'')\<rparr> w of
        (Inr r, w1) \<Rightarrow> (Inr r, w1)
      | (Inl e, w1) \<Rightarrow>
          (Inl \<lparr>err_message = Some (''Failed to connect to OpenAI: '' @ template_text (ue_message e)),
                err_code = None, provider_error = Some e\<rparr>, w1))"

definition OpenAI_doGetUsage :: "string option \<Rightarrow> 'w \<Rightarrow> (js_error + json option) \<times> 'w" where
  "OpenAI_doGetUsage apiKey w = (Inr None, w)"

definition OpenAI_isQuotaExceededError :: "js_error \<Rightarrow> bool" where
  "OpenAI_isQuotaExceededError e = (err_code e = Some ''quota_exceeded'')"

definition OpenAIProvider ::
  "'w runtime \<Rightarrow> string option \<Rightarrow> (js_error, request, response, json option, 'w) abstract_methods" where
  "OpenAIProvider rt host =
     \<lparr>doSendRequest = OpenAI_doSendRequest rt host,
      doGetUsage = OpenAI_doGetUsage,
      isQuotaExceededError = OpenAI_isQuotaExceededError\<rparr>"

section \<open>A concrete runtime\<close>


section \<open>The classification as the specification words it\<close>

text \<open>
  The seven substrings the classifier of \<^verbatim>\<open>OllamaCloudProvider\<close> looks for in the error
  message, which are also the seven the specification lists.
\<close>

definition transient_keywords :: "string list" where
  "transient_keywords =
     [''quota'', ''rate limit'', ''too many requests'', ''upstream error'', ''bad gateway'',
      ''service unavailable'', ''gateway timeout'']"

text \<open>
  The specification's sentence, word for word: an error is transient exactly when it
  carries HTTP status 429, 502, 503 or 504, or its error text or its nested provider error
  payload contains one of the seven substrings.
\<close>

definition spec_classify_transient :: "js_error \<Rightarrow> bool" where
  "spec_classify_transient e =
     (let text = (case err_message e of None \<Rightarrow> [] | Some m \<Rightarrow> m);
          payload = (case provider_error e of None \<Rightarrow> []
                     | Some p \<Rightarrow> (case error p of None \<Rightarrow> [] | Some t \<Rightarrow> t));
          code = (case provider_error e of None \<Rightarrow> None | Some p \<Rightarrow> status p)
      in code \<in> set [Some 429, Some 502, Some 503, Some 504]
         \<or> list_ex (\<lambda>kw. includes_str text kw \<or> includes_str payload kw) transient_keywords)"

section \<open>Concrete inputs\<close>

text \<open>
  A provider whose adapter rejects every call with the same error, with a given
  classifier; an error that only mentions a quota in its message; and a fresh rotator over
  three keys.
\<close>

definition rejecting_adapter ::
  "(js_error \<Rightarrow> bool) \<Rightarrow> js_error \<Rightarrow> (js_error, unit, unit, json option, unit) abstract_methods" where
  "rejecting_adapter classify e =
     \<lparr>doSendRequest = (\<lambda>apiKey request w. (Inl e, w)),
      doGetUsage = (\<lambda>apiKey w. (Inr None, w)),
      isQuotaExceededError = classify\<rparr>"

definition quota_error :: js_error where
  "quota_error = \<lparr>err_message = Some ''Failed to connect: quota exceeded'', err_code = None,
                   provider_error = None\<rparr>"

definition three_keys :: KeyRotator where
  "three_keys = \<lparr>keys = [''k1'', ''k2'', ''k3''], currentKeyIndex = - 1\<rparr>"

text \<open>
  A provider whose adapter fails like the one above and whose world is the list of the keys
  its two operations were called with, in the order of the calls; and a fresh rotator over
  two keys.
\<close>

definition recording_adapter ::
  "(js_error \<Rightarrow> bool) \<Rightarrow> js_error \<Rightarrow>
   (js_error, unit, unit, json option, string option list) abstract_methods" where
  "recording_adapter classify e =
     \<lparr>doSendRequest = (\<lambda>apiKey request w. (Inl e, w @ [apiKey])),
      doGetUsage = (\<lambda>apiKey w. (Inr None, w @ [apiKey])),
      isQuotaExceededError = classify\<rparr>"

definition two_keys :: KeyRotator where
  "two_keys = \<lparr>keys = [''k1'', ''k2''], currentKeyIndex = - 1\<rparr>"

text \<open>
  Two errors as the providers wrap them: one whose upstream payload says that the service
  is unavailable, one whose upstream status is 429.
\<close>

definition payload_unavailable_error :: js_error where
  "payload_unavailable_error =
     \<lparr>err_message = Some ''Failed to connect to OllamaCloud: fetch failed'', err_code = None,
      provider_error = Some \<lparr>ue_message = Some ''fetch failed'', status = None,
                               error = Some ''service unavailable''\<rparr>\<rparr>"

definition status_429_error :: js_error where
  "status_429_error =
     \<lparr>err_message = Some ''Failed to connect to OpenAI: slow down'', err_code = None,
      provider_error = Some \<lparr>ue_message = Some ''slow down'', status = Some 429, error = None\<rparr>\<rparr>"



text \<open>
  An adapter call that failed with an error the provider classifies as quota exceeded.
\<close>

definition transient_failure :: "('e, 'q, 'r, 'u, 'w) abstract_methods \<Rightarrow> string option \<times> ('e + 'r) \<Rightarrow> bool" where
  "transient_failure A c = (case snd c of Inl e \<Rightarrow> isQuotaExceededError A e | Inr _ \<Rightarrow> False)"

text \<open>
  A system message, and a message with the instruction appended to its content as
  \<^verbatim>\<open>injectToolInstruction\<close> appends it.
\<close>

abbreviation is_system :: "chat_message \<Rightarrow> bool" where
  "is_system \<equiv> (\<lambda>msg. role msg = ''system'')"

abbreviation with_instruction :: "string \<Rightarrow> chat_message \<Rightarrow> chat_message" where
  "with_instruction instruction msg \<equiv> msg\<lparr>content := content msg @ [CHR 0x0A, CHR 0x0A] @ instruction\<rparr>"

section \<open>The rotation of keys\<close>

lemma smod_nonneg: "0 \<le> a \<Longrightarrow> 0 < b \<Longrightarrow> a smod b = a mod (b::int)"
  by (simp add: signed_modulo_int_def sgn_if)

lemma getNextKey_ok:
  assumes "rotator_ok r"
  shows "getNextKey r =
     (Some (keys r ! nat ((currentKeyIndex r + 1) mod int (length (keys r)))),
      r\<lparr>currentKeyIndex := (currentKeyIndex r + 1) mod int (length (keys r))\<rparr>)"
proof -
  from assms have n: "0 < int (length (keys r))" and i: "0 \<le> currentKeyIndex r + 1"
    by (auto simp: rotator_ok_def)
  have m: "(currentKeyIndex r + 1) smod int (length (keys r)) = (currentKeyIndex r + 1) mod int (length (keys r))"
    using smod_nonneg [OF i n] .
  have "0 \<le> (currentKeyIndex r + 1) mod int (length (keys r))"
       "(currentKeyIndex r + 1) mod int (length (keys r)) < int (length (keys r))"
    using n by simp_all
  then show ?thesis
    by (simp add: getNextKey_def Let_def m js_array_get_def)
qed

lemma rotator_ok_new: "KeyRotator_new ks = Inr r \<Longrightarrow> rotator_ok r \<and> keys r = ks \<and> currentKeyIndex r = - 1"
  by (auto simp: KeyRotator_new_def rotator_ok_def split: if_splits)

lemma rotator_ok_next: "rotator_ok r \<Longrightarrow> rotator_ok (snd (getNextKey r)) \<and> keys (snd (getNextKey r)) = keys r
   \<and> 0 \<le> currentKeyIndex (snd (getNextKey r))"
proof -
  assume ok: "rotator_ok r"
  then have n: "0 < int (length (keys r))" by (auto simp: rotator_ok_def)
  have b: "0 \<le> (currentKeyIndex r + 1) mod int (length (keys r))"
       "(currentKeyIndex r + 1) mod int (length (keys r)) < int (length (keys r))"
    using n by simp_all
  from b(1) have "- 1 \<le> (currentKeyIndex r + 1) mod int (length (keys r))" by linarith
  then have "rotator_ok (r\<lparr>currentKeyIndex := (currentKeyIndex r + 1) mod int (length (keys r))\<rparr>)"
    using b(2) ok unfolding rotator_ok_def by simp
  with b(1) show ?thesis
    by (simp add: getNextKey_ok [OF ok])
qed

lemma getNextKey_times_ok:
  "rotator_ok r \<Longrightarrow>
   fst (getNextKey_times n r) =
     map (\<lambda>j. Some (keys r ! nat ((currentKeyIndex r + 1 + int j) mod int (length (keys r))))) [0..<n]
   \<and> keys (snd (getNextKey_times n r)) = keys r
   \<and> currentKeyIndex (snd (getNextKey_times n r)) =
       (if n = 0 then currentKeyIndex r else (currentKeyIndex r + int n) mod int (length (keys r)))
   \<and> rotator_ok (snd (getNextKey_times n r))"
proof (induction n arbitrary: r)
  case 0
  then show ?case by simp
next
  case (Suc n)
  let ?N = "int (length (keys r))"
  let ?r1 = "r\<lparr>currentKeyIndex := (currentKeyIndex r + 1) mod ?N\<rparr>"
  have g: "getNextKey r = (Some (keys r ! nat ((currentKeyIndex r + 1) mod ?N)), ?r1)"
    using Suc.prems by (rule getNextKey_ok)
  have ok1: "rotator_ok ?r1"
    using rotator_ok_next [OF Suc.prems] by (simp add: g)
  note IH = Suc.IH [OF ok1]
  have shift: "((currentKeyIndex r + 1) mod ?N + 1 + int j) mod ?N = (currentKeyIndex r + 1 + int (Suc j)) mod ?N" for j
    using mod_add_left_eq [of "currentKeyIndex r + 1" ?N "1 + int j"] by (simp add: algebra_simps)
  have idx: "((currentKeyIndex r + 1) mod ?N + int n) mod ?N = (currentKeyIndex r + int (Suc n)) mod ?N"
    using mod_add_left_eq [of "currentKeyIndex r + 1" ?N "int n"] by (simp add: algebra_simps)
  have m1: "(currentKeyIndex r + 1) mod ?N mod ?N = (currentKeyIndex r + 1) mod ?N" by simp
  have upt: "[0..<Suc n] = 0 # map Suc [0..<n]"
    by (simp add: upt_conv_Cons map_Suc_upt del: upt_Suc)
  show ?case
    using IH
    apply (simp add: g split_beta Let_def del: upt_Suc)
    apply (simp only: upt list.map map_map o_def shift idx)
    apply (auto simp: idx)
    done
qed

lemma map_nth_mod_rotate:
  "xs \<noteq> [] \<Longrightarrow> map (\<lambda>j. xs ! ((m + j) mod length xs)) [0..<length xs] = rotate m xs"
  by (rule nth_equalityI) (simp_all add: nth_rotate)

lemma getNextKey_times_keys:
  assumes "rotator_ok r"
  shows "fst (getNextKey_times (length (keys r)) r) = map Some (rotate (nat (currentKeyIndex r + 1)) (keys r))"
proof -
  let ?N = "length (keys r)" and ?m = "nat (currentKeyIndex r + 1)"
  from assms have ne: "keys r \<noteq> []" and i: "0 \<le> currentKeyIndex r + 1"
    by (auto simp: rotator_ok_def)
  have "nat ((currentKeyIndex r + 1 + int j) mod int ?N) = (?m + j) mod ?N" for j
  proof -
    have "currentKeyIndex r + 1 + int j = int (?m + j)" using i by simp
    then show ?thesis by (simp only: zmod_int [symmetric] nat_int)
  qed
  then have "fst (getNextKey_times ?N r) = map (\<lambda>j. Some (keys r ! ((?m + j) mod ?N))) [0..<?N]"
    using getNextKey_times_ok [OF assms, of ?N] by simp
  also have "\<dots> = map Some (map (\<lambda>j. keys r ! ((?m + j) mod ?N)) [0..<?N])"
    by (simp add: o_def)
  also have "\<dots> = map Some (rotate ?m (keys r))"
    by (simp only: map_nth_mod_rotate [OF ne])
  finally show ?thesis .
qed

text \<open>
  Claim C3.  On a freshly constructed rotator over a non-empty pool of \<open>N\<close> keys, \<open>N\<close>
  consecutive \<^verbatim>\<open>getNextKey()\<close> calls return the keys of the pool, each once and in pool order;
  the call after them returns the first key again, as the very first call did; and every call
  moves the cursor to its successor modulo \<open>N\<close>.
\<close>

theorem getNextKey_round_robin:
  assumes "KeyRotator_new ks = Inr r0"
  shows "fst (getNextKey_times (length ks) r0) = map Some ks
       \<and> fst (getNextKey (snd (getNextKey_times (length ks) r0))) = Some (hd ks)
       \<and> fst (getNextKey r0) = Some (hd ks)
       \<and> (\<forall>n. currentKeyIndex (snd (getNextKey_times (Suc n) r0)) =
              (currentKeyIndex (snd (getNextKey_times n r0)) + 1) mod int (length ks))"
proof -
  from rotator_ok_new [OF assms]
  have ok: "rotator_ok r0" and k: "keys r0 = ks" and i: "currentKeyIndex r0 = - 1" by simp_all
  from ok k have ne: "ks \<noteq> []" by (auto simp: rotator_ok_def)
  have a: "fst (getNextKey_times (length ks) r0) = map Some ks"
    using getNextKey_times_keys [OF ok] by (simp add: k i)
  have first: "fst (getNextKey r0) = Some (hd ks)"
    using ne by (simp add: getNextKey_ok [OF ok] k i hd_conv_nth)
  let ?rN = "snd (getNextKey_times (length ks) r0)"
  from getNextKey_times_ok [OF ok, of "length ks"] ne
  have okN: "rotator_ok ?rN" and kN: "keys ?rN = ks"
    and iN: "currentKeyIndex ?rN = (- 1 + int (length ks)) mod int (length ks)"
    by (simp_all add: k i)
  have "(- 1 + int (length ks) + 1) mod int (length ks) = 0" by simp
  then have "(currentKeyIndex ?rN + 1) mod int (length ks) = 0"
    unfolding iN by (simp add: mod_simps)
  then have again: "fst (getNextKey ?rN) = Some (hd ks)"
    using ne by (simp add: getNextKey_ok [OF okN] kN hd_conv_nth)
  have step: "currentKeyIndex (snd (getNextKey_times (Suc n) r0)) =
      (currentKeyIndex (snd (getNextKey_times n r0)) + 1) mod int (length ks)" for n
  proof -
    have "(- 1 + int (Suc n)) mod int (length ks)
        = (currentKeyIndex (snd (getNextKey_times n r0)) + 1) mod int (length ks)"
      using getNextKey_times_ok [OF ok, of n]
      by (cases "n = 0") (simp_all add: k i mod_simps algebra_simps)
    then show ?thesis
      using getNextKey_times_ok [OF ok, of "Suc n"] by (simp add: k i)
  qed
  from a again first step show ?thesis by blast
qed

text \<open>
  The round over a pool of three keys.
\<close>

theorem getNextKey_round_robin_witness:
  "KeyRotator_new [''k1'', ''k2'', ''k3''] = Inr \<lparr>keys = [''k1'', ''k2'', ''k3''], currentKeyIndex = - 1\<rparr>
   \<and> fst (getNextKey_times 3 \<lparr>keys = [''k1'', ''k2'', ''k3''], currentKeyIndex = - 1\<rparr>)
       = [Some ''k1'', Some ''k2'', Some ''k3'']
   \<and> fst (getNextKey (snd (getNextKey_times 3 \<lparr>keys = [''k1'', ''k2'', ''k3''], currentKeyIndex = - 1\<rparr>)))
       = Some ''k1''"
proof -
  have h: "KeyRotator_new [''k1'', ''k2'', ''k3''] = Inr \<lparr>keys = [''k1'', ''k2'', ''k3''], currentKeyIndex = - 1\<rparr>"
    by (simp add: KeyRotator_new_def)
  from getNextKey_round_robin [OF h] h show ?thesis by (simp add: numeral_3_eq_3)
qed

text \<open>
  Claim C8.  On a rotator on which \<^verbatim>\<open>getNextKey\<close> has never been called the cursor is \<open>-1\<close>,
  and \<^verbatim>\<open>getCurrentKey()\<close> reads \<^verbatim>\<open>this.keys[-1]\<close>: it returns \<^verbatim>\<open>undefined\<close>, although its
  declared result is \<^verbatim>\<open>string\<close>, and raises nothing.
\<close>

theorem getCurrentKey_before_first_rotation:
  "map_sum id getCurrentKey (KeyRotator_new [''key-1'']) = Inr None"
  by (simp add: KeyRotator_new_def getCurrentKey_def js_array_get_def)

section \<open>The retry loop\<close>

lemma sendRequest_loop_all_transient:
  "list_all (transient_failure A) (calls (sendRequest_loop A request totalKeys attempt lastError rot w)) \<Longrightarrow>
   map fst (calls (sendRequest_loop A request totalKeys attempt lastError rot w))
     = fst (getNextKey_times (totalKeys - attempt) rot)
   \<and> rotator (sendRequest_loop A request totalKeys attempt lastError rot w)
     = snd (getNextKey_times (totalKeys - attempt) rot)
   \<and> outcome (sendRequest_loop A request totalKeys attempt lastError rot w)
     = Inl (case calls (sendRequest_loop A request totalKeys attempt lastError rot w) of
              [] \<Rightarrow> lastError
            | c # cs \<Rightarrow> (case snd (last (c # cs)) of Inl e \<Rightarrow> Some e | Inr r \<Rightarrow> None))"
proof (induction A request totalKeys attempt lastError rot w rule: sendRequest_loop.induct)
  case (1 A request totalKeys attempt lastError rot w)
  show ?case
  proof (cases "attempt < totalKeys")
    case False
    then show ?thesis by (subst (1 2 3 4) sendRequest_loop.simps) simp
  next
    case True
    obtain apiKey rot1 where g: "getNextKey rot = (apiKey, rot1)" by (cases "getNextKey rot")
    obtain res w1 where d: "doSendRequest A apiKey request w = (res, w1)"
      by (cases "doSendRequest A apiKey request w")
    from True have S: "totalKeys - attempt = Suc (totalKeys - (attempt + 1))" by simp
    show ?thesis
    proof (cases res)
      case (Inr response)
      with True g d have "sendRequest_loop A request totalKeys attempt lastError rot w
          = \<lparr>outcome = Inr response, rotator = rot1, world = w1, calls = [(apiKey, Inr response)]\<rparr>"
        by (subst sendRequest_loop.simps) simp
      with "1.prems" show ?thesis
        by (simp add: transient_failure_def)
    next
      case (Inl err)
      show ?thesis
      proof (cases "isQuotaExceededError A err")
        case False
        with True g d Inl have "sendRequest_loop A request totalKeys attempt lastError rot w
          = \<lparr>outcome = Inl (Some err), rotator = rot1, world = w1, calls = [(apiKey, Inl err)]\<rparr>"
          by (subst sendRequest_loop.simps) simp
        with "1.prems" False show ?thesis
          by (simp add: transient_failure_def)
      next
        case q: True
        let ?rest = "sendRequest_loop A request totalKeys (attempt + 1) (Some err) rot1 w1"
        have unf: "sendRequest_loop A request totalKeys attempt lastError rot w
            = ?rest\<lparr>calls := (apiKey, Inl err) # calls ?rest\<rparr>"
          using True g d Inl q by (subst sendRequest_loop.simps) (simp add: Let_def)
        from "1.prems" have pre: "list_all (transient_failure A) (calls ?rest)"
          by (simp add: unf)
        note IH = "1.IH" [OF True g [symmetric] d [symmetric] Inl q pre]
        show ?thesis
          unfolding unf S using IH g
          by (auto simp: split_beta split: list.splits)
      qed
    qed
  qed
qed

text \<open>
  The loop on a shared rotator, one iteration at a time.
\<close>

lemma shared_loop_unfold:
  assumes "attempt < totalKeys" "getNextKey rot = (apiKey, rot1)"
    "doSendRequest A apiKey request w = (res, w1)"
  shows "sendRequest_shared_loop overlap A request totalKeys attempt lastError rot w =
     (case res of
        Inr resp \<Rightarrow>
          \<lparr>outcome = Inr resp, rotator = snd (getNextKey_times (overlap w1) rot1), world = w1,
           calls = [(apiKey, Inr resp)]\<rparr>
      | Inl err \<Rightarrow>
          if isQuotaExceededError A err
          then (sendRequest_shared_loop overlap A request totalKeys (attempt + 1) (Some err)
                  (snd (getNextKey_times (overlap w1) rot1)) w1)
               \<lparr>calls := (apiKey, Inl err)
                  # calls (sendRequest_shared_loop overlap A request totalKeys (attempt + 1) (Some err)
                      (snd (getNextKey_times (overlap w1) rot1)) w1)\<rparr>
          else \<lparr>outcome = Inl (Some err), rotator = snd (getNextKey_times (overlap w1) rot1), world = w1,
                calls = [(apiKey, Inl err)]\<rparr>)"
  using assms by (subst sendRequest_shared_loop.simps) (simp add: Let_def split: sum.splits)

lemma shared_loop_done:
  "\<not> attempt < totalKeys \<Longrightarrow>
   sendRequest_shared_loop overlap A request totalKeys attempt lastError rot w =
     \<lparr>outcome = Inl lastError, rotator = rot, world = w, calls = []\<rparr>"
  by (subst sendRequest_shared_loop.simps) simp

text \<open>
  Whatever the other invocations do, the calls that a run records are the calls it made:
  each has the key that \<^verbatim>\<open>getNextKey()\<close> returned at that moment and the result that the
  adapter returned for that key, and the run ends in the world and with the rotator that
  these calls leave.
\<close>

lemma replay_calls:
  "replay overlap A request
     (calls (sendRequest_shared_loop overlap A request totalKeys attempt lastError rot w)) rot w
   = Some (rotator (sendRequest_shared_loop overlap A request totalKeys attempt lastError rot w),
           world (sendRequest_shared_loop overlap A request totalKeys attempt lastError rot w))"
proof (induction overlap A request totalKeys attempt lastError rot w rule: sendRequest_shared_loop.induct)
  case (1 overlap A request totalKeys attempt lastError rot w)
  show ?case
  proof (cases "attempt < totalKeys")
    case False
    then show ?thesis by (simp add: shared_loop_done)
  next
    case True
    obtain apiKey rot1 where g: "getNextKey rot = (apiKey, rot1)" by (cases "getNextKey rot")
    obtain res w1 where d: "doSendRequest A apiKey request w = (res, w1)"
      by (cases "doSendRequest A apiKey request w")
    note unf = shared_loop_unfold [OF True g d, of overlap lastError]
    show ?thesis
    proof (cases res)
      case (Inr resp)
      then show ?thesis by (simp add: unf g d)
    next
      case (Inl err)
      show ?thesis
      proof (cases "isQuotaExceededError A err")
        case False
        with Inl show ?thesis by (simp add: unf g d)
      next
        case q: True
        note IH = "1.IH" [OF True g [symmetric] d [symmetric] refl Inl q]
        from IH Inl q show ?thesis by (simp add: unf g d)
      qed
    qed
  qed
qed

text \<open>
  When no other invocation rotates the keys, the loop on a shared rotator is the loop above.
\<close>

lemma shared_loop_sequential:
  assumes "\<forall>w. overlap w = 0"
  shows "sendRequest_shared_loop overlap A request totalKeys attempt lastError rot w
       = sendRequest_loop A request totalKeys attempt lastError rot w"
proof (induction A request totalKeys attempt lastError rot w rule: sendRequest_loop.induct)
  case (1 A request totalKeys attempt lastError rot w)
  show ?case
  proof (cases "attempt < totalKeys")
    case False
    then show ?thesis
      by (subst sendRequest_loop.simps) (simp add: shared_loop_done)
  next
    case True
    obtain apiKey rot1 where g: "getNextKey rot = (apiKey, rot1)" by (cases "getNextKey rot")
    obtain res w1 where d: "doSendRequest A apiKey request w = (res, w1)"
      by (cases "doSendRequest A apiKey request w")
    note unf = shared_loop_unfold [OF True g d, of overlap lastError]
    have z: "snd (getNextKey_times (overlap w1) rot1) = rot1"
      using assms by simp
    show ?thesis
    proof (cases res)
      case (Inr resp)
      with True g d show ?thesis
        by (subst sendRequest_loop.simps) (simp add: unf z)
    next
      case (Inl err)
      show ?thesis
      proof (cases "isQuotaExceededError A err")
        case False
        with Inl True g d show ?thesis
          by (subst sendRequest_loop.simps) (simp add: unf z)
      next
        case q: True
        note IH = "1.IH" [OF True g [symmetric] d [symmetric] Inl q]
        from IH Inl q True g d show ?thesis
          by (subst sendRequest_loop.simps) (simp add: unf z Let_def)
      qed
    qed
  qed
qed

text \<open>
  A run in which every call failed with a quota error made one call for each key of the
  pool, and throws the error of the last one.
\<close>

lemma shared_loop_all_transient:
  "list_all (transient_failure A)
     (calls (sendRequest_shared_loop overlap A request totalKeys attempt lastError rot w)) \<Longrightarrow>
   length (calls (sendRequest_shared_loop overlap A request totalKeys attempt lastError rot w))
     = totalKeys - attempt
   \<and> outcome (sendRequest_shared_loop overlap A request totalKeys attempt lastError rot w)
     = Inl (case calls (sendRequest_shared_loop overlap A request totalKeys attempt lastError rot w) of
              [] \<Rightarrow> lastError
            | c # cs \<Rightarrow> (case snd (last (c # cs)) of Inl e \<Rightarrow> Some e | Inr r \<Rightarrow> None))"
proof (induction overlap A request totalKeys attempt lastError rot w rule: sendRequest_shared_loop.induct)
  case (1 overlap A request totalKeys attempt lastError rot w)
  show ?case
  proof (cases "attempt < totalKeys")
    case False
    then show ?thesis by (simp add: shared_loop_done)
  next
    case True
    obtain apiKey rot1 where g: "getNextKey rot = (apiKey, rot1)" by (cases "getNextKey rot")
    obtain res w1 where d: "doSendRequest A apiKey request w = (res, w1)"
      by (cases "doSendRequest A apiKey request w")
    note unf = shared_loop_unfold [OF True g d, of overlap lastError]
    from True have S: "totalKeys - attempt = Suc (totalKeys - (attempt + 1))" by simp
    show ?thesis
    proof (cases res)
      case (Inr resp)
      with "1.prems" show ?thesis by (simp add: unf transient_failure_def)
    next
      case (Inl err)
      show ?thesis
      proof (cases "isQuotaExceededError A err")
        case False
        with "1.prems" Inl show ?thesis by (simp add: unf transient_failure_def)
      next
        case q: True
        let ?rest = "sendRequest_shared_loop overlap A request totalKeys (attempt + 1) (Some err)
                       (snd (getNextKey_times (overlap w1) rot1)) w1"
        have u: "sendRequest_shared_loop overlap A request totalKeys attempt lastError rot w
               = ?rest\<lparr>calls := (apiKey, Inl err) # calls ?rest\<rparr>"
          using Inl q by (simp add: unf)
        from "1.prems" have pre: "list_all (transient_failure A) (calls ?rest)"
          by (simp add: u)
        note IH = "1.IH" [OF True g [symmetric] d [symmetric] refl Inl q pre]
        show ?thesis
          unfolding u S using IH by (auto split: list.splits)
      qed
    qed
  qed
qed

text \<open>
  Calls that replay without any rotation in between are the adapter called with their keys
  one after the other.
\<close>

lemma replay_sequential_attempts:
  assumes "\<forall>w. overlap w = 0"
  shows "replay overlap A request cs rot w = Some (rot', w') \<Longrightarrow>
         attempts A request (map fst cs) w = (cs, w')"
proof (induction cs arbitrary: rot w)
  case Nil
  then show ?case by simp
next
  case (Cons c cs)
  obtain apiKey rot1 where g: "getNextKey rot = (apiKey, rot1)" by (cases "getNextKey rot")
  obtain res w1 where d: "doSendRequest A apiKey request w = (res, w1)"
    by (cases "doSendRequest A apiKey request w")
  from Cons.prems g d have c: "c = (apiKey, res)"
    and r: "replay overlap A request cs (snd (getNextKey_times (overlap w1) rot1)) w1 = Some (rot', w')"
    by (simp_all split: if_splits)
  from Cons.IH [OF r] c d show ?case by simp
qed

text \<open>
  Claim C1, amended.  When every adapter call that one \<^verbatim>\<open>sendRequest\<close> makes fails with an
  error classified as quota exceeded, it makes as many adapter calls as the pool has keys,
  each with the key that \<^verbatim>\<open>getNextKey()\<close> returns at that moment and in the world the call
  before left, and then throws the error of the last call, as the adapter raised it.  When
  no other invocation rotates the keys meanwhile, these are calls of the adapter with each
  key of the pool once, in rotation order from the key after the cursor.
\<close>

theorem sendRequest_all_keys_transient:
  assumes ok: "rotator_ok rot"
    and tr: "\<forall>c \<in> set (calls (sendRequest_shared overlap A request rot w)).
               \<exists>e. snd c = Inl e \<and> isQuotaExceededError A e"
  shows "length (calls (sendRequest_shared overlap A request rot w)) = length (keys rot)
       \<and> replay overlap A request (calls (sendRequest_shared overlap A request rot w)) rot w
           = Some (rotator (sendRequest_shared overlap A request rot w),
                   world (sendRequest_shared overlap A request rot w))
       \<and> (\<exists>e. snd (last (calls (sendRequest_shared overlap A request rot w))) = Inl e
              \<and> isQuotaExceededError A e
              \<and> outcome (sendRequest_shared overlap A request rot w) = Inl (Some e))
       \<and> ((\<forall>w'. overlap w' = 0) \<longrightarrow>
             sendRequest_shared overlap A request rot w = sendRequest A request rot w
             \<and> map fst (calls (sendRequest_shared overlap A request rot w))
                 = map Some (rotate (nat (currentKeyIndex rot + 1)) (keys rot))
             \<and> attempts A request (map Some (rotate (nat (currentKeyIndex rot + 1)) (keys rot))) w
                 = (calls (sendRequest_shared overlap A request rot w),
                    world (sendRequest_shared overlap A request rot w)))"
proof -
  let ?R = "sendRequest_shared overlap A request rot w"
  from tr have all: "list_all (transient_failure A) (calls ?R)"
    by (auto simp: list_all_iff transient_failure_def)
  from shared_loop_all_transient [of A overlap request "length (keys rot)" 0 None rot w] all
  have len: "length (calls ?R) = length (keys rot)"
    and out: "outcome ?R = Inl (case calls ?R of [] \<Rightarrow> None
                | c # cs \<Rightarrow> (case snd (last (c # cs)) of Inl e \<Rightarrow> Some e | Inr r \<Rightarrow> None))"
    by (simp_all add: sendRequest_shared_def getKeyCount_def)
  have rep: "replay overlap A request (calls ?R) rot w = Some (rotator ?R, world ?R)"
    unfolding sendRequest_shared_def by (rule replay_calls)
  from len ok have ne: "calls ?R \<noteq> []" by (auto simp: rotator_ok_def)
  then have "last (calls ?R) \<in> set (calls ?R)" by simp
  with tr obtain e where e: "snd (last (calls ?R)) = Inl e" "isQuotaExceededError A e" by blast
  with ne out have oe: "outcome ?R = Inl (Some e)" by (cases "calls ?R") simp_all
  have seq: "?R = sendRequest A request rot w
      \<and> map fst (calls ?R) = map Some (rotate (nat (currentKeyIndex rot + 1)) (keys rot))
      \<and> attempts A request (map Some (rotate (nat (currentKeyIndex rot + 1)) (keys rot))) w
          = (calls ?R, world ?R)"
    if z: "\<forall>w'. overlap w' = 0"
  proof -
    have eq: "?R = sendRequest A request rot w"
      unfolding sendRequest_shared_def sendRequest_def by (rule shared_loop_sequential [OF z])
    from all have all': "list_all (transient_failure A) (calls (sendRequest A request rot w))"
      by (simp only: eq)
    from sendRequest_loop_all_transient [of A request "length (keys rot)" 0 None rot w] all'
    have "map fst (calls (sendRequest A request rot w)) = fst (getNextKey_times (length (keys rot)) rot)"
      by (simp add: sendRequest_def getKeyCount_def)
    then have ks: "map fst (calls ?R) = map Some (rotate (nat (currentKeyIndex rot + 1)) (keys rot))"
      by (simp only: eq getNextKey_times_keys [OF ok])
    from replay_sequential_attempts [OF z rep]
    have "attempts A request (map fst (calls ?R)) w = (calls ?R, world ?R)" .
    then have "attempts A request (map Some (rotate (nat (currentKeyIndex rot + 1)) (keys rot))) w
          = (calls ?R, world ?R)"
      by (simp only: ks)
    with eq ks show ?thesis by (intro conjI)
  qed
  from len rep e oe seq show ?thesis by blast
qed

text \<open>
  Three keys, no other invocation, and an adapter that records the key of each call and
  always fails with a quota error: the adapter is called with each of the three keys, in
  order, and that error is thrown.
\<close>

theorem sendRequest_all_keys_transient_witness:
  "length (calls (sendRequest_shared (\<lambda>w. 0) (recording_adapter OllamaCloud_isQuotaExceededError quota_error) () three_keys [])) = 3
   \<and> replay (\<lambda>w. 0) (recording_adapter OllamaCloud_isQuotaExceededError quota_error) ()
       [(Some ''k1'', Inl quota_error), (Some ''k2'', Inl quota_error), (Some ''k3'', Inl quota_error)]
       three_keys []
       = Some (\<lparr>keys = [''k1'', ''k2'', ''k3''], currentKeyIndex = 2\<rparr>, [Some ''k1'', Some ''k2'', Some ''k3''])
   \<and> outcome (sendRequest_shared (\<lambda>w. 0) (recording_adapter OllamaCloud_isQuotaExceededError quota_error) () three_keys [])
       = Inl (Some quota_error)
   \<and> sendRequest_shared (\<lambda>w. 0) (recording_adapter OllamaCloud_isQuotaExceededError quota_error) () three_keys []
       = sendRequest (recording_adapter OllamaCloud_isQuotaExceededError quota_error) () three_keys []
   \<and> attempts (recording_adapter OllamaCloud_isQuotaExceededError quota_error) ()
       [Some ''k1'', Some ''k2'', Some ''k3''] []
       = ([(Some ''k1'', Inl quota_error), (Some ''k2'', Inl quota_error), (Some ''k3'', Inl quota_error)],
          [Some ''k1'', Some ''k2'', Some ''k3''])"
proof -
  let ?A = "recording_adapter OllamaCloud_isQuotaExceededError quota_error"
  let ?R = "sendRequest_shared (\<lambda>w. 0) ?A () three_keys []"
  have ok: "rotator_ok three_keys"
    by (simp add: rotator_ok_def three_keys_def)
  have q: "OllamaCloud_isQuotaExceededError quota_error"
    by code_simp
  have ev: "calls ?R
      = [(Some ''k1'', Inl quota_error), (Some ''k2'', Inl quota_error), (Some ''k3'', Inl quota_error)]"
    by code_simp
  have rw: "rotator ?R = \<lparr>keys = [''k1'', ''k2'', ''k3''], currentKeyIndex = 2\<rparr>"
    "world ?R = [Some ''k1'', Some ''k2'', Some ''k3'']"
    by code_simp+
  have tr: "\<forall>c \<in> set (calls ?R). \<exists>e. snd c = Inl e \<and> isQuotaExceededError ?A e"
    unfolding ev using q by (simp add: recording_adapter_def)
  have k: "keys three_keys = [''k1'', ''k2'', ''k3'']" "currentKeyIndex three_keys = - 1"
    by (simp_all add: three_keys_def)
  have ks: "map Some (rotate (nat (currentKeyIndex three_keys + 1)) (keys three_keys))
      = [Some ''k1'', Some ''k2'', Some ''k3'']"
    by (simp add: k)
  have z: "\<forall>w'::string option list. (\<lambda>w. 0::nat) w' = 0"
    by simp
  note T = sendRequest_all_keys_transient [OF ok tr]
  from T [THEN conjunct1] have c1: "length (calls ?R) = 3"
    by (simp add: k)
  note c2 = T [THEN conjunct2, THEN conjunct1, unfolded ev rw]
  from T [THEN conjunct2, THEN conjunct2, THEN conjunct1]
  have c3: "outcome ?R = Inl (Some quota_error)"
    by (simp add: ev)
  note S = T [THEN conjunct2, THEN conjunct2, THEN conjunct2, THEN mp, OF z]
  note c4 = S [THEN conjunct1]
  note c5 = S [THEN conjunct2, THEN conjunct2, unfolded ks ev rw]
  from c1 c2 c3 c4 c5 show ?thesis by (intro conjI)
qed

text \<open>
  Claim C1 as stated asks for one adapter call for each credential and for a tag on the
  thrown error.  With two keys and another invocation that rotates once during each adapter
  call, the adapter is called twice with the first key and never with the second; and what
  is thrown is the value with which the adapter rejected the last call, nothing added.
\<close>

theorem sendRequest_overlap_repeats_key:
  "calls (sendRequest_shared (\<lambda>w. 1) (recording_adapter OllamaCloud_isQuotaExceededError quota_error) () two_keys [])
     = [(Some ''k1'', Inl quota_error), (Some ''k1'', Inl quota_error)]
   \<and> world (sendRequest_shared (\<lambda>w. 1) (recording_adapter OllamaCloud_isQuotaExceededError quota_error) () two_keys [])
     = [Some ''k1'', Some ''k1'']
   \<and> outcome (sendRequest_shared (\<lambda>w. 1) (recording_adapter OllamaCloud_isQuotaExceededError quota_error) () two_keys [])
     = map_sum Some id
         (fst (doSendRequest (recording_adapter OllamaCloud_isQuotaExceededError quota_error)
                 (Some ''k1'') () [Some ''k1'']))
   \<and> outcome (sendRequest_shared (\<lambda>w. 1) (recording_adapter OllamaCloud_isQuotaExceededError quota_error) () two_keys [])
     = Inl (Some quota_error)"
  by code_simp

text \<open>
  Claim C2.  When the first adapter call fails with an error that is not classified as quota
  exceeded, \<^verbatim>\<open>sendRequest\<close> throws that error after this one call: the rotator has advanced
  once and no other key was used.
\<close>

theorem sendRequest_fatal_first:
  assumes ok: "rotator_ok rot"
    and g: "getNextKey rot = (apiKey, rot1)"
    and d: "doSendRequest A apiKey request w = (Inl err, w1)"
    and f: "\<not> isQuotaExceededError A err"
  shows "sendRequest A request rot w =
           \<lparr>outcome = Inl (Some err), rotator = rot1, world = w1, calls = [(apiKey, Inl err)]\<rparr>"
proof -
  from ok have "0 < getKeyCount rot" by (simp add: rotator_ok_def getKeyCount_def)
  with g d f show ?thesis
    unfolding sendRequest_def by (subst sendRequest_loop.simps) simp
qed

text \<open>
  Three keys and a first failure that is fatal.
\<close>

theorem sendRequest_fatal_first_witness:
  "sendRequest (rejecting_adapter OpenAI_isQuotaExceededError quota_error) () three_keys ()
     = \<lparr>outcome = Inl (Some quota_error),
        rotator = \<lparr>keys = [''k1'', ''k2'', ''k3''], currentKeyIndex = 0\<rparr>,
        world = (), calls = [(Some ''k1'', Inl quota_error)]\<rparr>"
proof -
  let ?A = "rejecting_adapter OpenAI_isQuotaExceededError quota_error"
  have ok: "rotator_ok three_keys"
    by (simp add: rotator_ok_def three_keys_def)
  have g: "getNextKey three_keys = (Some ''k1'', \<lparr>keys = [''k1'', ''k2'', ''k3''], currentKeyIndex = 0\<rparr>)"
    by code_simp
  have d: "doSendRequest ?A (Some ''k1'') () () = (Inl quota_error, ())"
    by (simp add: rejecting_adapter_def)
  have f: "\<not> isQuotaExceededError ?A quota_error"
    by (simp add: rejecting_adapter_def OpenAI_isQuotaExceededError_def quota_error_def)
  from sendRequest_fatal_first [OF ok g d f] show ?thesis .
qed

text \<open>
  On a shared rotator a first failure that is not a quota error ends the run in the same
  way, with the rotator as the other invocations left it during that call.
\<close>

lemma shared_loop_fatal_at_first_call:
  assumes ok: "rotator_ok rot"
    and g: "getNextKey rot = (apiKey, rot1)"
    and d: "doSendRequest A apiKey request w = (Inl err, w1)"
    and f: "\<not> isQuotaExceededError A err"
  shows "sendRequest_shared overlap A request rot w =
           \<lparr>outcome = Inl (Some err), rotator = snd (getNextKey_times (overlap w1) rot1),
            world = w1, calls = [(apiKey, Inl err)]\<rparr>"
proof -
  from ok have "0 < getKeyCount rot" by (simp add: rotator_ok_def getKeyCount_def)
  from shared_loop_unfold [OF this g d] f show ?thesis
    by (simp add: sendRequest_shared_def)
qed

section \<open>The usage probe\<close>

text \<open>
  \<^verbatim>\<open>getUsage\<close> calls the usage operation of the adapter once, with what \<^verbatim>\<open>getCurrentKey()\<close>
  returns, and does not write to the rotator; with either provider the call returns
  \<^verbatim>\<open>null\<close>.
\<close>

lemma getUsage_call:
  "getUsage A rot w =
     \<lparr>outcome = fst (doGetUsage A (getCurrentKey rot) w), rotator = rot,
      world = snd (doGetUsage A (getCurrentKey rot) w),
      calls = [(getCurrentKey rot, fst (doGetUsage A (getCurrentKey rot) w))]\<rparr>"
  by (simp add: getUsage_def Let_def split_beta)

lemma getUsage_null:
  "outcome (getUsage (OllamaCloudProvider rt host) rot w) = Inr None"
  "outcome (getUsage (OpenAIProvider rt host) rot w) = Inr None"
  by (simp_all add: getUsage_def Let_def split_beta
        OllamaCloudProvider_def OpenAIProvider_def OllamaCloud_doGetUsage_def OpenAI_doGetUsage_def)

text \<open>
  Claim C9.  On a provider that has not sent a request yet the cursor is \<open>-1\<close>, and
  \<^verbatim>\<open>getUsage\<close> hands \<^verbatim>\<open>undefined\<close> to the usage operation of the adapter in place of a
  credential: an adapter that records the key of each call records \<open>None\<close>.  After one
  rotation the same call hands over the key that the rotation returned.  In both cases the
  rotator is left as it was and the result is \<^verbatim>\<open>null\<close>.
\<close>

theorem getUsage_before_first_rotation:
  "map_sum id (\<lambda>rot. getUsage (recording_adapter OllamaCloud_isQuotaExceededError quota_error) rot [])
     (KeyRotator_new [''key-1''])
     = Inr \<lparr>outcome = Inr None, rotator = \<lparr>keys = [''key-1''], currentKeyIndex = - 1\<rparr>,
            world = [None], calls = [(None, Inr None)]\<rparr>
   \<and> map_sum id (\<lambda>rot. getUsage (recording_adapter OllamaCloud_isQuotaExceededError quota_error)
                         (snd (getNextKey rot)) [])
     (KeyRotator_new [''key-1''])
     = Inr \<lparr>outcome = Inr None, rotator = \<lparr>keys = [''key-1''], currentKeyIndex = 0\<rparr>,
            world = [Some ''key-1''], calls = [(Some ''key-1'', Inr None)]\<rparr>"
  by code_simp

section \<open>The classification of errors\<close>

text \<open>
  Claim C7 as stated fails for both providers: \<^verbatim>\<open>OllamaCloudProvider\<close> does not look for
  \<open>service unavailable\<close> in the upstream payload, and \<^verbatim>\<open>OpenAIProvider\<close> does not look at
  the status at all.
\<close>

theorem classifier_differs_from_spec:
  "spec_classify_transient payload_unavailable_error
   \<and> \<not> OllamaCloud_isQuotaExceededError payload_unavailable_error
   \<and> spec_classify_transient status_429_error
   \<and> \<not> OpenAI_isQuotaExceededError status_429_error"
  by code_simp

text \<open>
  Claim C7, amended.  \<^verbatim>\<open>OllamaCloudProvider\<close> classifies an error as quota exceeded exactly
  when its message, in lower case, contains one of the seven substrings, or the upstream
  error has status 429, 502, 503 or 504, or the upstream payload contains \<open>quota\<close> or
  \<open>rate limit\<close>; \<^verbatim>\<open>OpenAIProvider\<close> does so exactly when the code of the error is
  \<open>quota_exceeded\<close>.
\<close>

theorem isQuotaExceededError_characterisation:
  "OllamaCloud_isQuotaExceededError e =
     (list_ex (includes_str (case err_message e of None \<Rightarrow> [] | Some m \<Rightarrow> toLowerCase m)) transient_keywords
      \<or> (case provider_error e of None \<Rightarrow> False
          | Some p \<Rightarrow> status p \<in> set [Some 429, Some 502, Some 503, Some 504]
                     \<or> (case error p of None \<Rightarrow> False
                         | Some t \<Rightarrow> includes_str t ''quota'' \<or> includes_str t ''rate limit'')))
   \<and> OpenAI_isQuotaExceededError e = (err_code e = Some ''quota_exceeded'')"
  by (auto simp: OllamaCloud_isQuotaExceededError_def OpenAI_isQuotaExceededError_def
        transient_keywords_def Let_def split: option.splits)

text \<open>
  A bad gateway is transient for \<^verbatim>\<open>OllamaCloudProvider\<close>; the two errors above are fatal
  for their providers.
\<close>

theorem isQuotaExceededError_characterisation_witness:
  "OllamaCloud_isQuotaExceededError
     \<lparr>err_message = Some ''Failed to connect to OllamaCloud: Bad Gateway'', err_code = None,
      provider_error = Some \<lparr>ue_message = Some ''Bad Gateway'', status = Some 502, error = None\<rparr>\<rparr>
   \<and> \<not> OllamaCloud_isQuotaExceededError payload_unavailable_error
   \<and> \<not> OpenAI_isQuotaExceededError status_429_error"
  using isQuotaExceededError_characterisation [of
     "\<lparr>err_message = Some ''Failed to connect to OllamaCloud: Bad Gateway'', err_code = None,
      provider_error = Some \<lparr>ue_message = Some ''Bad Gateway'', status = Some 502, error = None\<rparr>\<rparr>"]
    isQuotaExceededError_characterisation [of payload_unavailable_error]
    isQuotaExceededError_characterisation [of status_429_error]
  by code_simp

text \<open>
  The error that \<^verbatim>\<open>OpenAIProvider\<close> throws is the wrapper it builds around the upstream error;
  the wrapper has no \<^verbatim>\<open>code\<close>, so its own classifier takes every such error for fatal.
\<close>

lemma OpenAI_doSendRequest_error_fatal:
  "OpenAI_doSendRequest rt host apiKey request w = (Inl e, w1) \<Longrightarrow> \<not> OpenAI_isQuotaExceededError e"
  by (auto simp: OpenAI_doSendRequest_def OpenAI_isQuotaExceededError_def split: prod.splits sum.splits)

section \<open>The emulation of tool calls\<close>

text \<open>
  Claim C5 as stated has the instruction appended to the leading system message whenever the
  list contains a system message.  With a user message first and a system message second the
  list contains one, the leading message is left as it is, and the instruction goes to the
  second message.
\<close>

theorem injectToolInstruction_not_leading:
  "list_ex is_system
     [\<lparr>role = ''user'', content = ''hi'', name = None, tool_calls = None\<rparr>,
      \<lparr>role = ''system'', content = ''Be brief.'', name = None, tool_calls = None\<rparr>]
   \<and> injectToolInstruction
       [\<lparr>role = ''user'', content = ''hi'', name = None, tool_calls = None\<rparr>,
        \<lparr>role = ''system'', content = ''Be brief.'', name = None, tool_calls = None\<rparr>] ''USE TOOLS''
     = [\<lparr>role = ''user'', content = ''hi'', name = None, tool_calls = None\<rparr>,
        \<lparr>role = ''system'', content = ''Be brief.'' @ [CHR 0x0A, CHR 0x0A] @ ''USE TOOLS'',
         name = None, tool_calls = None\<rparr>]
   \<and> hd (injectToolInstruction
       [\<lparr>role = ''user'', content = ''hi'', name = None, tool_calls = None\<rparr>,
        \<lparr>role = ''system'', content = ''Be brief.'', name = None, tool_calls = None\<rparr>] ''USE TOOLS'')
     \<noteq> with_instruction ''USE TOOLS'' \<lparr>role = ''user'', content = ''hi'', name = None, tool_calls = None\<rparr>
   \<and> \<not> is_system (hd (injectToolInstruction
       [\<lparr>role = ''user'', content = ''hi'', name = None, tool_calls = None\<rparr>,
        \<lparr>role = ''system'', content = ''Be brief.'', name = None, tool_calls = None\<rparr>] ''USE TOOLS''))"
  by (simp add: injectToolInstruction_def)

text \<open>
  Claim C5, amended.  When the list contains a system message, the instruction is appended
  to the content of every system message, wherever it stands: the list keeps its length and
  its roles, and the other messages are unchanged.  When it contains none, one system
  message with the instruction is put in front of the unchanged list.  Either way the result
  has as many system messages as the list had, or one if it had none.
\<close>

theorem injectToolInstruction_every_system_message:
  "(list_ex is_system msgs \<longrightarrow>
      injectToolInstruction msgs instruction
        = map (\<lambda>msg. if is_system msg then with_instruction instruction msg else msg) msgs
      \<and> length (injectToolInstruction msgs instruction) = length msgs
      \<and> map role (injectToolInstruction msgs instruction) = map role msgs
      \<and> filter (\<lambda>msg. \<not> is_system msg) (injectToolInstruction msgs instruction)
          = filter (\<lambda>msg. \<not> is_system msg) msgs)
   \<and> (\<not> list_ex is_system msgs \<longrightarrow>
      injectToolInstruction msgs instruction
        = \<lparr>role = ''system'', content = instruction, name = None, tool_calls = None\<rparr> # msgs)
   \<and> length (filter is_system (injectToolInstruction msgs instruction))
       = max 1 (length (filter is_system msgs))"
proof -
  let ?f = "\<lambda>msg. if is_system msg then with_instruction instruction msg else msg"
  have role_f: "role (?f msg) = role msg" for msg
    by simp
  have sys_f: "is_system (?f msg) = is_system msg" for msg
    by simp
  have m: "injectToolInstruction msgs instruction = map ?f msgs" if "list_ex is_system msgs"
    using that by (simp add: injectToolInstruction_def)
  have n: "injectToolInstruction msgs instruction
        = \<lparr>role = ''system'', content = instruction, name = None, tool_calls = None\<rparr> # msgs"
    if "\<not> list_ex is_system msgs"
    using that by (simp add: injectToolInstruction_def)
  have roles: "map role (map ?f msgs) = map role msgs"
    by (simp add: o_def role_f)
  have others: "filter (\<lambda>msg. \<not> is_system msg) (map ?f msgs) = filter (\<lambda>msg. \<not> is_system msg) msgs"
    by (induction msgs) simp_all
  have sys: "length (filter is_system (map ?f msgs)) = length (filter is_system msgs)"
    by (induction msgs) simp_all
  have pos: "0 < length (filter is_system msgs)" if "list_ex is_system msgs"
    using that by (induction msgs) auto
  have none: "filter is_system msgs = []" if "\<not> list_ex is_system msgs"
    using that by (induction msgs) auto
  have count: "length (filter is_system (injectToolInstruction msgs instruction))
       = max 1 (length (filter is_system msgs))"
  proof (cases "list_ex is_system msgs")
    case True
    from pos [OF True] have "1 \<le> length (filter is_system msgs)"
      by linarith
    then have "max 1 (length (filter is_system msgs)) = length (filter is_system msgs)"
      by (rule max_absorb2)
    with sys show ?thesis by (simp only: m [OF True])
  next
    case False
    show ?thesis by (simp add: n [OF False] none [OF False])
  qed
  from m n roles others count show ?thesis by simp
qed

text \<open>
  Two system messages both receive the instruction; a list without one gets a new first
  message.
\<close>

theorem injectToolInstruction_every_system_message_witness:
  "injectToolInstruction
     [\<lparr>role = ''system'', content = ''A'', name = None, tool_calls = None\<rparr>,
      \<lparr>role = ''user'', content = ''hi'', name = None, tool_calls = None\<rparr>,
      \<lparr>role = ''system'', content = ''B'', name = None, tool_calls = None\<rparr>] ''I''
   = [\<lparr>role = ''system'', content = ''A'' @ [CHR 0x0A, CHR 0x0A] @ ''I'', name = None, tool_calls = None\<rparr>,
      \<lparr>role = ''user'', content = ''hi'', name = None, tool_calls = None\<rparr>,
      \<lparr>role = ''system'', content = ''B'' @ [CHR 0x0A, CHR 0x0A] @ ''I'', name = None, tool_calls = None\<rparr>]
   \<and> injectToolInstruction [\<lparr>role = ''user'', content = ''hi'', name = None, tool_calls = None\<rparr>] ''I''
   = [\<lparr>role = ''system'', content = ''I'', name = None, tool_calls = None\<rparr>,
      \<lparr>role = ''user'', content = ''hi'', name = None, tool_calls = None\<rparr>]"
proof -
  let ?sysA = "\<lparr>role = ''system'', content = ''A'', name = None, tool_calls = None\<rparr>"
  let ?user = "\<lparr>role = ''user'', content = ''hi'', name = None, tool_calls = None\<rparr>"
  let ?sysB = "\<lparr>role = ''system'', content = ''B'', name = None, tool_calls = None\<rparr>"
  have h1: "list_ex is_system [?sysA, ?user, ?sysB]" by simp
  have h2: "\<not> list_ex is_system [?user]" by simp
  from injectToolInstruction_every_system_message [of "[?sysA, ?user, ?sysB]" "''I''"] h1
  have a: "injectToolInstruction [?sysA, ?user, ?sysB] ''I''
     = map (\<lambda>msg. if is_system msg then with_instruction ''I'' msg else msg) [?sysA, ?user, ?sysB]"
    by blast
  from injectToolInstruction_every_system_message [of "[?user]" "''I''"] h2
  have b: "injectToolInstruction [?user] ''I''
     = \<lparr>role = ''system'', content = ''I'', name = None, tool_calls = None\<rparr> # [?user]"
    by blast
  show ?thesis
    unfolding a b by simp
qed













end
